theory Spec2Isabelle
  imports Complex_Main
begin

section \<open>Texture enumerations\<close>

text \<open>
  Modelled from the spec: \<^verbatim>\<open>Sampler.ts\<close> imports its enumerations from
  \<^verbatim>\<open>./textureEnums\<close>, which is not among the sources. Section 6 of the specification
  names the enumerations; their members are the ones \<^verbatim>\<open>Sampler.ts\<close> and the enumeration
  tests name (\<^verbatim>\<open>TextureMagFilter.linear\<close>, ...). At run time a member is a number handed
  to the native call; its value is not known here, so the model keeps it symbolic, one
  constructor per member, written \<^verbatim>\<open>Enum_member\<close> for the source's \<^verbatim>\<open>Enum.member\<close>.
\<close>

datatype TextureMagFilter =
    TextureMagFilter_linear
  | TextureMagFilter_nearest

datatype TextureMinFilter =
    TextureMinFilter_linear
  | TextureMinFilter_linearMipmapLinear
  | TextureMinFilter_linearMipmapNearest
  | TextureMinFilter_nearest
  | TextureMinFilter_nearestMipmapLinear
  | TextureMinFilter_nearestMipmapNearest

datatype TextureCompareFunc =
    TextureCompareFunc_always
  | TextureCompareFunc_equal
  | TextureCompareFunc_greater
  | TextureCompareFunc_greaterOrEqual
  | TextureCompareFunc_less
  | TextureCompareFunc_lessOrEqual
  | TextureCompareFunc_never
  | TextureCompareFunc_notEqual

datatype TextureCompareMode =
    TextureCompareMode_none
  | TextureCompareMode_compareRefToTexture

datatype TextureWrap =
    TextureWrap_clampToEdge
  | TextureWrap_mirroredRepeat
  | TextureWrap_repeat

section \<open>The native context\<close>

text \<open>
  \<^verbatim>\<open>WebGL2RenderingContext\<close> is external. The model records what the sampler code
  asks of it: the calls, in the order they are issued, and a supply of handles for
  \<^verbatim>\<open>createSampler\<close>. The parameter names are the \<^verbatim>\<open>gl.TEXTURE_*\<close> constants of
  lines 101 to 109.
\<close>

datatype WebGLSampler = WebGLSampler nat

datatype SamplerParameter =
    TEXTURE_MIN_FILTER
  | TEXTURE_MAG_FILTER
  | TEXTURE_WRAP_S
  | TEXTURE_WRAP_T
  | TEXTURE_WRAP_R
  | TEXTURE_MIN_LOD
  | TEXTURE_MAX_LOD
  | TEXTURE_COMPARE_MODE
  | TEXTURE_COMPARE_FUNC

datatype GLint =
    MinFilter TextureMinFilter
  | MagFilter TextureMagFilter
  | Wrap TextureWrap
  | CompareMode TextureCompareMode
  | CompareFunc TextureCompareFunc

datatype GLCall =
    CreateSampler WebGLSampler
  | SamplerParameteri WebGLSampler SamplerParameter GLint
  | SamplerParameterf WebGLSampler SamplerParameter real
  | DeleteSampler "WebGLSampler option"

record GL =
  calls :: "GLCall list"
  next_sampler :: nat

definition createSampler :: "GL \<Rightarrow> WebGLSampler \<times> GL" where
  "createSampler g =
     (WebGLSampler (next_sampler g),
      g\<lparr>calls := calls g @ [CreateSampler (WebGLSampler (next_sampler g))],
        next_sampler := Suc (next_sampler g)\<rparr>)"

definition samplerParameteri :: "WebGLSampler \<Rightarrow> SamplerParameter \<Rightarrow> GLint \<Rightarrow> GL \<Rightarrow> GL" where
  "samplerParameteri s p v g = g\<lparr>calls := calls g @ [SamplerParameteri s p v]\<rparr>"

definition samplerParameterf :: "WebGLSampler \<Rightarrow> SamplerParameter \<Rightarrow> real \<Rightarrow> GL \<Rightarrow> GL" where
  "samplerParameterf s p v g = g\<lparr>calls := calls g @ [SamplerParameterf s p v]\<rparr>"

definition deleteSampler :: "WebGLSampler option \<Rightarrow> GL \<Rightarrow> GL" where
  "deleteSampler s g = g\<lparr>calls := calls g @ [DeleteSampler s]\<rparr>"

section \<open>Sampler: configuration and constructor\<close>

text \<open>
  \<^verbatim>\<open>SamplerProps\<close> (lines 11 to 74): every field is optional, \<open>None\<close> is \<^verbatim>\<open>undefined\<close>.
  \<^verbatim>\<open>context\<close> comes from \<^verbatim>\<open>WithContext\<close>; it is an opaque reference here.
\<close>

datatype Context = Context nat

record SamplerProps =
  context_prop :: "Context option"
  minFilter :: "TextureMinFilter option"
  magFilter :: "TextureMagFilter option"
  wrapS :: "TextureWrap option"
  wrapT :: "TextureWrap option"
  wrapR :: "TextureWrap option"
  minLod :: "real option"
  maxLod :: "real option"
  compareMode :: "TextureCompareMode option"
  compareFunc :: "TextureCompareFunc option"

text \<open>The empty object literal \<^verbatim>\<open>{}\<close>, the default of the constructor's parameter.\<close>

definition empty_props :: SamplerProps where
  "empty_props =
     \<lparr>context_prop = None, minFilter = None, magFilter = None, wrapS = None, wrapT = None,
      wrapR = None, minLod = None, maxLod = None, compareMode = None, compareFunc = None\<rparr>"

text \<open>
  The constructor's destructured locals (lines 85 to 94), which the initializer closure
  captures: each is the property's value, or the default when the property is
  \<^verbatim>\<open>undefined\<close>.
\<close>

record Captured =
  v_minFilter :: TextureMinFilter
  v_magFilter :: TextureMagFilter
  v_wrapS :: TextureWrap
  v_wrapT :: TextureWrap
  v_wrapR :: TextureWrap
  v_minLod :: real
  v_maxLod :: real
  v_compareMode :: TextureCompareMode
  v_compareFunc :: TextureCompareFunc

definition default_to :: "'a \<Rightarrow> 'a option \<Rightarrow> 'a" where
  "default_to d v = (case v of None \<Rightarrow> d | Some x \<Rightarrow> x)"

definition destructure :: "SamplerProps \<Rightarrow> Captured" where
  "destructure p =
     \<lparr>v_minFilter = default_to TextureMinFilter_linear (minFilter p),
      v_magFilter = default_to TextureMagFilter_linear (magFilter p),
      v_wrapS = default_to TextureWrap_clampToEdge (wrapS p),
      v_wrapT = default_to TextureWrap_clampToEdge (wrapT p),
      v_wrapR = default_to TextureWrap_clampToEdge (wrapR p),
      v_minLod = default_to (- 1000) (minLod p),
      v_maxLod = default_to 1000 (maxLod p),
      v_compareMode = default_to TextureCompareMode_none (compareMode p),
      v_compareFunc = default_to TextureCompareFunc_lessOrEqual (compareFunc p)\<rparr>"

text \<open>
  The body of the initializer (lines 98 to 111): one \<^verbatim>\<open>createSampler\<close>, nine parameter
  calls in the source's order, and the handle that line 111 stores in \<^verbatim>\<open>this.sampler\<close>.
\<close>

definition initializer :: "Captured \<Rightarrow> GL \<Rightarrow> WebGLSampler \<times> GL" where
  "initializer c g0 =
     (let (s, g1) = createSampler g0;
          g2 = samplerParameteri s TEXTURE_MIN_FILTER (MinFilter (v_minFilter c)) g1;
          g3 = samplerParameteri s TEXTURE_MAG_FILTER (MagFilter (v_magFilter c)) g2;
          g4 = samplerParameteri s TEXTURE_WRAP_S (Wrap (v_wrapS c)) g3;
          g5 = samplerParameteri s TEXTURE_WRAP_T (Wrap (v_wrapT c)) g4;
          g6 = samplerParameteri s TEXTURE_WRAP_R (Wrap (v_wrapR c)) g5;
          g7 = samplerParameterf s TEXTURE_MIN_LOD (v_minLod c) g6;
          g8 = samplerParameterf s TEXTURE_MAX_LOD (v_maxLod c) g7;
          g9 = samplerParameteri s TEXTURE_COMPARE_MODE (CompareMode (v_compareMode c)) g8;
          g10 = samplerParameteri s TEXTURE_COMPARE_FUNC (CompareFunc (v_compareFunc c)) g9
      in (s, g10))"

text \<open>
  The object: \<^verbatim>\<open>ready\<close> is the readiness signal inherited from \<^verbatim>\<open>ContextConsumer\<close>,
  \<^verbatim>\<open>sampler\<close> the private field of line 81 (\<^verbatim>\<open>undefined\<close> until line 111 runs),
  \<^verbatim>\<open>captured\<close> the closure of the initializer handed to \<^verbatim>\<open>super\<close>, and \<^verbatim>\<open>context_ref\<close>
  the second argument of \<^verbatim>\<open>super\<close> (line 113).
\<close>

datatype Readiness = Pending | Ready | Failed

record Sampler =
  ready :: Readiness
  sampler :: "WebGLSampler option"
  captured :: Captured
  context_ref :: "Context option"

text \<open>
  The constructor (lines 84 to 115). Its argument is optional: \<open>None\<close> is a call with
  no argument, which the parameter default \<^verbatim>\<open>= {}\<close> replaces by the empty object.
  Construction issues no native call; it hands the initializer and the context
  reference to \<^verbatim>\<open>super\<close>.
\<close>

definition Sampler_constructor :: "SamplerProps option \<Rightarrow> Sampler" where
  "Sampler_constructor arg =
     (let p = default_to empty_props arg
      in \<lparr>ready = Pending, sampler = None, captured = destructure p,
          context_ref = context_prop p\<rparr>)"

text \<open>
  An argument that configures nothing: no argument at all, or an object in which each of
  the nine configuration properties is \<^verbatim>\<open>undefined\<close>. The \<^verbatim>\<open>context\<close> property is not a
  configuration field and may be present, as in \<^verbatim>\<open>new Sampler( { context } )\<close>.
\<close>

definition no_configuration :: "SamplerProps option \<Rightarrow> bool" where
  "no_configuration arg =
     (let p = default_to empty_props arg
      in minFilter p = None \<and> magFilter p = None \<and> wrapS p = None \<and> wrapT p = None
         \<and> wrapR p = None \<and> minLod p = None \<and> maxLod p = None
         \<and> compareMode p = None \<and> compareFunc p = None)"

section \<open>The cooperative scheduler around one sampler\<close>

text \<open>
  Modelled from the spec: the base class \<^verbatim>\<open>ContextConsumer\<close> (imported on line 1 from
  \<^verbatim>\<open>../abstracts/ContextConsumer\<close>) is not among the sources. Section 4.1 of the
  specification gives its contract: the routine first awaits the context's own
  readiness, then runs the initializer, then resolves \<^verbatim>\<open>ready\<close> with success; a failure
  resolves \<^verbatim>\<open>ready\<close> to failure; the readiness state moves from pending to ready or to
  failed once and the initializer is never re-entered. Scheduling is single-threaded and
  cooperative (section 5): an \<^verbatim>\<open>await\<close> on a pending signal parks the caller, and the
  parked callers resume, in order, when the signal settles.

  A world is one sampler together with the context it is bound to: the context's own
  readiness signal and native state, the sampler object, the callers parked on
  \<^verbatim>\<open>await this.ready\<close>, and the outcome of every call of \<^verbatim>\<open>getSampler\<close> and \<^verbatim>\<open>delete\<close> whose
  promise has settled.
\<close>

datatype Task = GetSamplerTask | DeleteTask

datatype Outcome =
    Returned "WebGLSampler option"
  | Completed
  | Rejected

record World =
  context_ready :: Readiness
  gl :: GL
  self :: Sampler
  waiting :: "Task list"
  outcomes :: "(Task \<times> Outcome) list"

text \<open>Line 126, \<^verbatim>\<open>return this.sampler\<close>: the promise of \<^verbatim>\<open>getSampler\<close> resolves with the field.\<close>

definition getSampler_return :: "World \<Rightarrow> World" where
  "getSampler_return w =
     w\<lparr>outcomes := outcomes w @ [(GetSamplerTask, Returned (sampler (self w)))]\<rparr>"

text \<open>Lines 136 to 138: \<^verbatim>\<open>gl.deleteSampler( sampler )\<close> on the stored field, nothing else.\<close>

definition delete_release :: "World \<Rightarrow> World" where
  "delete_release w =
     w\<lparr>gl := deleteSampler (sampler (self w)) (gl w),
       outcomes := outcomes w @ [(DeleteTask, Completed)]\<rparr>"

fun after_ready :: "Task \<Rightarrow> World \<Rightarrow> World" where
  "after_ready GetSamplerTask w = getSampler_return w"
| "after_ready DeleteTask w = delete_release w"

text \<open>
  \<^verbatim>\<open>await this.ready\<close> (lines 124 and 134) followed by the rest of the method: parked
  while the signal is pending, rejected with the signal's failure, continued otherwise.
  On a settled signal the continuation runs at once: the microtask hop of an \<^verbatim>\<open>await\<close>
  is not modelled, since no code of the class runs in between.
\<close>

definition await_ready :: "Task \<Rightarrow> World \<Rightarrow> World" where
  "await_ready t w =
     (case ready (self w) of
        Pending \<Rightarrow> w\<lparr>waiting := waiting w @ [t]\<rparr>
      | Failed \<Rightarrow> w\<lparr>outcomes := outcomes w @ [(t, Rejected)]\<rparr>
      | Ready \<Rightarrow> after_ready t w)"

definition Sampler_getSampler :: "World \<Rightarrow> World" where
  "Sampler_getSampler w = await_ready GetSamplerTask w"

definition Sampler_delete :: "World \<Rightarrow> World" where
  "Sampler_delete w = await_ready DeleteTask w"

text \<open>
  Modelled from the spec: settling the readiness signal (sections 3 and 4.1: the first
  resolution is final and replayed to every observer). The value is stored, then the
  parked callers resume in order.
\<close>

definition settle :: "Readiness \<Rightarrow> World \<Rightarrow> World" where
  "settle r w =
     foldl (\<lambda>w' t. await_ready t w') (w\<lparr>self := (self w)\<lparr>ready := r\<rparr>, waiting := []\<rparr>) (waiting w)"

text \<open>
  Modelled from the spec: the routine \<^verbatim>\<open>ContextConsumer\<close> runs for the object (section
  4.1; the class is not among the sources), given a turn by the scheduler: nothing once
  \<^verbatim>\<open>ready\<close> has settled, nothing while the context is pending, failure when the context
  failed, and otherwise the initializer of lines 98 to 111 with
  \<^verbatim>\<open>this.sampler = sampler\<close> and success.
\<close>

definition ContextConsumer_routine :: "World \<Rightarrow> World" where
  "ContextConsumer_routine w =
     (if ready (self w) \<noteq> Pending then w
      else case context_ready w of
        Pending \<Rightarrow> w
      | Failed \<Rightarrow> settle Failed w
      | Ready \<Rightarrow>
          (let (s, g) = initializer (captured (self w)) (gl w)
           in settle Ready (w\<lparr>gl := g, self := (self w)\<lparr>sampler := Some s\<rparr>\<rparr>)))"

text \<open>
  Modelled from the spec: the cooperative scheduler of section 5. What can happen to a
  world: the context's signal settles (with success or not, and once), the routine gets
  a turn, a caller calls \<^verbatim>\<open>getSampler\<close>, a caller calls \<^verbatim>\<open>delete\<close>. A run is any sequence
  of these, so every interleaving of callers with the context and the routine is one.
\<close>

datatype Event = ContextSettles bool | Routine | GetSampler | Delete

fun step :: "Event \<Rightarrow> World \<Rightarrow> World" where
  "step (ContextSettles ok) w =
     (if context_ready w = Pending
      then w\<lparr>context_ready := (if ok then Ready else Failed)\<rparr> else w)"
| "step Routine w = ContextConsumer_routine w"
| "step GetSampler w = Sampler_getSampler w"
| "step Delete w = Sampler_delete w"

primrec run :: "Event list \<Rightarrow> World \<Rightarrow> World" where
  "run [] w = w"
| "run (e # es) w = run es (step e w)"

text \<open>
  \<^verbatim>\<open>new Sampler( arg )\<close> on a context whose signal is in state \<open>c0\<close> and whose native
  state is \<open>g0\<close>: nobody is parked, nothing has settled. Construction schedules the
  routine and issues no native call (section 4.2).
\<close>

definition new_Sampler :: "Readiness \<Rightarrow> GL \<Rightarrow> SamplerProps option \<Rightarrow> World" where
  "new_Sampler c0 g0 arg =
     \<lparr>context_ready = c0, gl = g0, self = Sampler_constructor arg, waiting = [], outcomes = []\<rparr>"

text \<open>The native calls issued since construction, and the handle the context hands out next.\<close>

definition issued :: "GL \<Rightarrow> World \<Rightarrow> GLCall list" where
  "issued g0 w = drop (length (calls g0)) (calls (gl w))"

definition first_handle :: "GL \<Rightarrow> WebGLSampler" where
  "first_handle g0 = WebGLSampler (next_sampler g0)"

fun is_create :: "GLCall \<Rightarrow> bool" where
  "is_create (CreateSampler s) = True"
| "is_create c = False"

fun is_parameter :: "GLCall \<Rightarrow> bool" where
  "is_parameter (SamplerParameteri s p v) = True"
| "is_parameter (SamplerParameterf s p v) = True"
| "is_parameter c = False"

fun is_delete :: "GLCall \<Rightarrow> bool" where
  "is_delete (DeleteSampler s) = True"
| "is_delete c = False"

section \<open>Storage formats and format inference\<close>

text \<open>
  Modelled from the spec: the two enumerations are declared in \<^verbatim>\<open>textureEnums.ts\<close>,
  which is not among the sources. The members of \<^verbatim>\<open>TextureFormat\<close> and
  \<^verbatim>\<open>TextureStorageFormat\<close> are the ones the
  enumeration tests go through: byte formats (with and without \<^verbatim>\<open>snorm\<close>), float formats
  at 16 and 32 bits, signed and unsigned integer formats at 8, 16 and 32 bits, each for
  one to four components, and the twelve remaining formats.
\<close>

datatype TextureFormat =
    TextureFormat_alpha
  | TextureFormat_luminance
  | TextureFormat_luminanceAlpha
  | TextureFormat_red
  | TextureFormat_redInteger
  | TextureFormat_rg
  | TextureFormat_rgInteger
  | TextureFormat_rgb
  | TextureFormat_rgbInteger
  | TextureFormat_rgba
  | TextureFormat_rgbaInteger

datatype TextureStorageFormat =
    TextureStorageFormat_r8
  | TextureStorageFormat_r8snorm
  | TextureStorageFormat_rg8
  | TextureStorageFormat_rg8snorm
  | TextureStorageFormat_rgb8
  | TextureStorageFormat_rgb8snorm
  | TextureStorageFormat_rgba8
  | TextureStorageFormat_rgba8snorm
  | TextureStorageFormat_r16f
  | TextureStorageFormat_r32f
  | TextureStorageFormat_rg16f
  | TextureStorageFormat_rg32f
  | TextureStorageFormat_rgb16f
  | TextureStorageFormat_rgb32f
  | TextureStorageFormat_rgba16f
  | TextureStorageFormat_rgba32f
  | TextureStorageFormat_r8i
  | TextureStorageFormat_r8ui
  | TextureStorageFormat_r16i
  | TextureStorageFormat_r16ui
  | TextureStorageFormat_r32i
  | TextureStorageFormat_r32ui
  | TextureStorageFormat_rg8i
  | TextureStorageFormat_rg8ui
  | TextureStorageFormat_rg16i
  | TextureStorageFormat_rg16ui
  | TextureStorageFormat_rg32i
  | TextureStorageFormat_rg32ui
  | TextureStorageFormat_rgb8i
  | TextureStorageFormat_rgb8ui
  | TextureStorageFormat_rgb16i
  | TextureStorageFormat_rgb16ui
  | TextureStorageFormat_rgb32i
  | TextureStorageFormat_rgb32ui
  | TextureStorageFormat_rgba8i
  | TextureStorageFormat_rgba8ui
  | TextureStorageFormat_rgba16i
  | TextureStorageFormat_rgba16ui
  | TextureStorageFormat_rgba32i
  | TextureStorageFormat_rgba32ui
  | TextureStorageFormat_alpha
  | TextureStorageFormat_luminance
  | TextureStorageFormat_luminanceAlpha
  | TextureStorageFormat_rgb565
  | TextureStorageFormat_rgba4
  | TextureStorageFormat_rgb5a1
  | TextureStorageFormat_rgb10a2
  | TextureStorageFormat_rgb10a2ui
  | TextureStorageFormat_srgb8
  | TextureStorageFormat_srgb8alpha8
  | TextureStorageFormat_r11fg11fb10f
  | TextureStorageFormat_rgb9e5

datatype Components = R | RG | RGB | RGBA

datatype Suffix = Plain | Snorm | Float | SignedInteger | UnsignedInteger

text \<open>
  Modelled from the spec: \<^verbatim>\<open>inferFormatFromStorageFormat\<close> lives in \<^verbatim>\<open>textureEnums.ts\<close>,
  which is not among the sources (only its test is). Section 4.3 describes it: a
  regular member decomposes into component-count prefix, bit depth and suffix, and its
  base format follows from the component count; the irregular tail goes through an
  explicit lookup table; there is no fallback. The specification lists no table entries:
  the ones below take the channel composition the member's name states. \<open>None\<close> is
  \<^verbatim>\<open>undefined\<close>, the outcome the exhaustiveness test rejects.
\<close>

fun decompose :: "TextureStorageFormat \<Rightarrow> (Components \<times> nat \<times> Suffix) option" where
  "decompose TextureStorageFormat_r8 = Some (R, 8, Plain)"
| "decompose TextureStorageFormat_r8snorm = Some (R, 8, Snorm)"
| "decompose TextureStorageFormat_rg8 = Some (RG, 8, Plain)"
| "decompose TextureStorageFormat_rg8snorm = Some (RG, 8, Snorm)"
| "decompose TextureStorageFormat_rgb8 = Some (RGB, 8, Plain)"
| "decompose TextureStorageFormat_rgb8snorm = Some (RGB, 8, Snorm)"
| "decompose TextureStorageFormat_rgba8 = Some (RGBA, 8, Plain)"
| "decompose TextureStorageFormat_rgba8snorm = Some (RGBA, 8, Snorm)"
| "decompose TextureStorageFormat_r16f = Some (R, 16, Float)"
| "decompose TextureStorageFormat_r32f = Some (R, 32, Float)"
| "decompose TextureStorageFormat_rg16f = Some (RG, 16, Float)"
| "decompose TextureStorageFormat_rg32f = Some (RG, 32, Float)"
| "decompose TextureStorageFormat_rgb16f = Some (RGB, 16, Float)"
| "decompose TextureStorageFormat_rgb32f = Some (RGB, 32, Float)"
| "decompose TextureStorageFormat_rgba16f = Some (RGBA, 16, Float)"
| "decompose TextureStorageFormat_rgba32f = Some (RGBA, 32, Float)"
| "decompose TextureStorageFormat_r8i = Some (R, 8, SignedInteger)"
| "decompose TextureStorageFormat_r8ui = Some (R, 8, UnsignedInteger)"
| "decompose TextureStorageFormat_r16i = Some (R, 16, SignedInteger)"
| "decompose TextureStorageFormat_r16ui = Some (R, 16, UnsignedInteger)"
| "decompose TextureStorageFormat_r32i = Some (R, 32, SignedInteger)"
| "decompose TextureStorageFormat_r32ui = Some (R, 32, UnsignedInteger)"
| "decompose TextureStorageFormat_rg8i = Some (RG, 8, SignedInteger)"
| "decompose TextureStorageFormat_rg8ui = Some (RG, 8, UnsignedInteger)"
| "decompose TextureStorageFormat_rg16i = Some (RG, 16, SignedInteger)"
| "decompose TextureStorageFormat_rg16ui = Some (RG, 16, UnsignedInteger)"
| "decompose TextureStorageFormat_rg32i = Some (RG, 32, SignedInteger)"
| "decompose TextureStorageFormat_rg32ui = Some (RG, 32, UnsignedInteger)"
| "decompose TextureStorageFormat_rgb8i = Some (RGB, 8, SignedInteger)"
| "decompose TextureStorageFormat_rgb8ui = Some (RGB, 8, UnsignedInteger)"
| "decompose TextureStorageFormat_rgb16i = Some (RGB, 16, SignedInteger)"
| "decompose TextureStorageFormat_rgb16ui = Some (RGB, 16, UnsignedInteger)"
| "decompose TextureStorageFormat_rgb32i = Some (RGB, 32, SignedInteger)"
| "decompose TextureStorageFormat_rgb32ui = Some (RGB, 32, UnsignedInteger)"
| "decompose TextureStorageFormat_rgba8i = Some (RGBA, 8, SignedInteger)"
| "decompose TextureStorageFormat_rgba8ui = Some (RGBA, 8, UnsignedInteger)"
| "decompose TextureStorageFormat_rgba16i = Some (RGBA, 16, SignedInteger)"
| "decompose TextureStorageFormat_rgba16ui = Some (RGBA, 16, UnsignedInteger)"
| "decompose TextureStorageFormat_rgba32i = Some (RGBA, 32, SignedInteger)"
| "decompose TextureStorageFormat_rgba32ui = Some (RGBA, 32, UnsignedInteger)"
| "decompose other = None"

text \<open>Modelled from the spec: component count to base format (section 4.3).\<close>

fun base_format :: "Components \<Rightarrow> TextureFormat" where
  "base_format R = TextureFormat_red"
| "base_format RG = TextureFormat_rg"
| "base_format RGB = TextureFormat_rgb"
| "base_format RGBA = TextureFormat_rgba"

text \<open>
  Modelled from the spec: the explicit lookup table of the irregular tail (section 4.3):
  the legacy luminance and alpha formats, the packed formats, the shared-exponent and
  packed-float formats, and the sRGB formats.
\<close>

definition irregular_formats :: "(TextureStorageFormat \<times> TextureFormat) list" where
  "irregular_formats =
     [(TextureStorageFormat_alpha, TextureFormat_alpha),
      (TextureStorageFormat_luminance, TextureFormat_luminance),
      (TextureStorageFormat_luminanceAlpha, TextureFormat_luminanceAlpha),
      (TextureStorageFormat_rgb565, TextureFormat_rgb),
      (TextureStorageFormat_rgba4, TextureFormat_rgba),
      (TextureStorageFormat_rgb5a1, TextureFormat_rgba),
      (TextureStorageFormat_rgb10a2, TextureFormat_rgba),
      (TextureStorageFormat_rgb10a2ui, TextureFormat_rgba),
      (TextureStorageFormat_srgb8, TextureFormat_rgb),
      (TextureStorageFormat_srgb8alpha8, TextureFormat_rgba),
      (TextureStorageFormat_r11fg11fb10f, TextureFormat_rgb),
      (TextureStorageFormat_rgb9e5, TextureFormat_rgb)]"

text \<open>
  Modelled from the spec: the inference function (section 4.3): the generative rule for
  a member that decomposes, the table for the others, and no default.
\<close>

definition inferFormatFromStorageFormat :: "TextureStorageFormat \<Rightarrow> TextureFormat option" where
  "inferFormatFromStorageFormat internal =
     (case decompose internal of
        Some (c, bits, suffix) \<Rightarrow> Some (base_format c)
      | None \<Rightarrow> map_of irregular_formats internal)"

section \<open>What holds of every reachable world\<close>

text \<open>
  The calls the initializer of lines 98 to 111 issues for a handle, the number of
  completed deletions, and the invariant of the worlds reachable from a construction on
  a context in state \<open>c0\<close> with native state \<open>g0\<close>.
\<close>

definition init_calls :: "Captured \<Rightarrow> WebGLSampler \<Rightarrow> GLCall list" where
  "init_calls c s =
     [CreateSampler s,
      SamplerParameteri s TEXTURE_MIN_FILTER (MinFilter (v_minFilter c)),
      SamplerParameteri s TEXTURE_MAG_FILTER (MagFilter (v_magFilter c)),
      SamplerParameteri s TEXTURE_WRAP_S (Wrap (v_wrapS c)),
      SamplerParameteri s TEXTURE_WRAP_T (Wrap (v_wrapT c)),
      SamplerParameteri s TEXTURE_WRAP_R (Wrap (v_wrapR c)),
      SamplerParameterf s TEXTURE_MIN_LOD (v_minLod c),
      SamplerParameterf s TEXTURE_MAX_LOD (v_maxLod c),
      SamplerParameteri s TEXTURE_COMPARE_MODE (CompareMode (v_compareMode c)),
      SamplerParameteri s TEXTURE_COMPARE_FUNC (CompareFunc (v_compareFunc c))]"

definition deletions :: "(Task \<times> Outcome) list \<Rightarrow> nat" where
  "deletions os = length (filter (\<lambda>x. x = (DeleteTask, Completed)) os)"

definition inv :: "Readiness \<Rightarrow> GL \<Rightarrow> Sampler \<Rightarrow> World \<Rightarrow> bool" where
  "inv c0 g0 s0 w \<longleftrightarrow>
     captured (self w) = captured s0 \<and> context_ref (self w) = context_ref s0 \<and>
     (c0 \<noteq> Pending \<longrightarrow> context_ready w = c0) \<and>
     (case ready (self w) of
        Pending \<Rightarrow> gl w = g0 \<and> sampler (self w) = None \<and> outcomes w = []
      | Failed \<Rightarrow>
          context_ready w = Failed \<and> gl w = g0 \<and> sampler (self w) = None \<and> waiting w = [] \<and>
          (\<forall>x \<in> set (outcomes w). snd x = Rejected)
      | Ready \<Rightarrow>
          context_ready w = Ready \<and> sampler (self w) = Some (first_handle g0) \<and> waiting w = [] \<and>
          next_sampler (gl w) = Suc (next_sampler g0) \<and>
          calls (gl w) = calls g0 @ init_calls (captured s0) (first_handle g0)
             @ replicate (deletions (outcomes w)) (DeleteSampler (Some (first_handle g0))) \<and>
          (\<forall>x \<in> set (outcomes w).
             x = (GetSamplerTask, Returned (Some (first_handle g0))) \<or> x = (DeleteTask, Completed)))"

section \<open>Lemmas\<close>

lemma initializer_eq:
  "initializer c g =
     (first_handle g,
      g\<lparr>calls := calls g @ init_calls c (first_handle g), next_sampler := Suc (next_sampler g)\<rparr>)"
  by (simp add: initializer_def createSampler_def samplerParameteri_def samplerParameterf_def
      init_calls_def first_handle_def)

lemma await_ready_self [simp]: "self (await_ready t w) = self w"
  by (cases t) (simp_all add: await_ready_def getSampler_return_def delete_release_def
      split: Readiness.splits)

lemma await_ready_context [simp]: "context_ready (await_ready t w) = context_ready w"
  by (cases t) (simp_all add: await_ready_def getSampler_return_def delete_release_def
      split: Readiness.splits)

lemma resume_self [simp]: "self (foldl (\<lambda>w' t. await_ready t w') w ts) = self w"
  by (induction ts arbitrary: w) simp_all

lemma resume_context [simp]:
  "context_ready (foldl (\<lambda>w' t. await_ready t w') w ts) = context_ready w"
  by (induction ts arbitrary: w) simp_all

lemma deletions_snoc [simp]:
  "deletions (os @ [x]) = (if x = (DeleteTask, Completed) then Suc (deletions os) else deletions os)"
  by (simp add: deletions_def)

lemma inv_await: "inv c0 g0 s0 w \<Longrightarrow> inv c0 g0 s0 (await_ready t w)"
  by (cases t; cases "ready (self w)")
    (auto simp: inv_def await_ready_def getSampler_return_def delete_release_def
      deleteSampler_def replicate_append_same)

lemma inv_resume:
  "inv c0 g0 s0 w \<Longrightarrow> inv c0 g0 s0 (foldl (\<lambda>w' t. await_ready t w') w ts)"
  by (induction ts arbitrary: w) (simp_all add: inv_await)

lemma inv_settled:
  assumes "inv c0 g0 s0 w" and "ready (self w) = Pending" and "context_ready w = Failed"
  shows "inv c0 g0 s0 (w\<lparr>self := (self w)\<lparr>ready := Failed\<rparr>, waiting := []\<rparr>)"
  using assms by (auto simp: inv_def)

lemma inv_initialized:
  assumes "inv c0 g0 s0 w" and "ready (self w) = Pending" and "context_ready w = Ready"
  shows "inv c0 g0 s0
     (w\<lparr>gl := snd (initializer (captured (self w)) (gl w)),
        self := (self w)\<lparr>sampler := Some (fst (initializer (captured (self w)) (gl w))),
                          ready := Ready\<rparr>,
        waiting := []\<rparr>)"
  using assms by (auto simp: inv_def initializer_eq deletions_def)

lemma inv_routine: "inv c0 g0 s0 w \<Longrightarrow> inv c0 g0 s0 (ContextConsumer_routine w)"
proof (cases "ready (self w) = Pending")
  case False
  assume "inv c0 g0 s0 w"
  with False show ?thesis by (simp add: ContextConsumer_routine_def)
next
  case True
  assume i: "inv c0 g0 s0 w"
  show ?thesis
  proof (cases "context_ready w")
    case Pending
    with True i show ?thesis by (simp add: ContextConsumer_routine_def)
  next
    case Failed
    from inv_resume [OF inv_settled [OF i True Failed]] True Failed
    show ?thesis by (simp add: ContextConsumer_routine_def settle_def)
  next
    case Ready
    from inv_resume [OF inv_initialized [OF i True Ready]] True Ready
    show ?thesis by (simp add: ContextConsumer_routine_def settle_def split_beta)
  qed
qed

lemma inv_step: "inv c0 g0 s0 w \<Longrightarrow> inv c0 g0 s0 (step e w)"
proof (cases e)
  case (ContextSettles ok)
  assume "inv c0 g0 s0 w"
  then show ?thesis unfolding ContextSettles
    by (cases "ready (self w)") (auto simp: inv_def)
next
  case Routine
  assume "inv c0 g0 s0 w"
  then show ?thesis unfolding Routine by (simp add: inv_routine)
next
  case GetSampler
  assume "inv c0 g0 s0 w"
  then show ?thesis unfolding GetSampler by (simp add: Sampler_getSampler_def inv_await)
next
  case Delete
  assume "inv c0 g0 s0 w"
  then show ?thesis unfolding Delete by (simp add: Sampler_delete_def inv_await)
qed

lemma inv_run: "inv c0 g0 s0 w \<Longrightarrow> inv c0 g0 s0 (run es w)"
  by (induction es arbitrary: w) (simp_all add: inv_step)

lemma inv_new: "inv c0 g0 (Sampler_constructor arg) (new_Sampler c0 g0 arg)"
  by (simp add: inv_def new_Sampler_def Sampler_constructor_def Let_def)

lemma inv_reachable:
  "inv c0 g0 (Sampler_constructor arg) (run es (new_Sampler c0 g0 arg))"
  by (rule inv_run [OF inv_new])

lemma step_settled:
  "ready (self w) \<noteq> Pending \<Longrightarrow> self (step e w) = self w"
  by (cases e) (simp_all add: ContextConsumer_routine_def Sampler_getSampler_def Sampler_delete_def)

lemma run_settled:
  "ready (self w) \<noteq> Pending \<Longrightarrow> self (run es w) = self w"
  by (induction es arbitrary: w) (simp_all add: step_settled)

lemma await_ready_gl_unready:
  "ready (self w) \<noteq> Ready \<Longrightarrow> gl (await_ready t w) = gl w"
  by (cases "ready (self w)") (simp_all add: await_ready_def)

lemma resume_gl_unready:
  "ready (self w) \<noteq> Ready \<Longrightarrow> gl (foldl (\<lambda>w' t. await_ready t w') w ts) = gl w"
  by (induction ts arbitrary: w) (simp_all add: await_ready_gl_unready)

lemma step_context_failed:
  "context_ready w = Failed \<Longrightarrow> context_ready (step e w) = Failed"
  by (cases e)
    (simp_all add: ContextConsumer_routine_def settle_def Sampler_getSampler_def
      Sampler_delete_def split: Readiness.splits)

lemma run_context_failed:
  "context_ready w = Failed \<Longrightarrow> context_ready (run es w) = Failed"
  by (induction es arbitrary: w) (simp_all add: step_context_failed)

lemma inv_issued:
  assumes "inv c0 g0 s0 w"
  shows "issued g0 w =
     (if ready (self w) = Ready
      then init_calls (captured s0) (first_handle g0)
             @ replicate (deletions (outcomes w)) (DeleteSampler (Some (first_handle g0)))
      else [])"
  using assms by (cases "ready (self w)") (auto simp: inv_def issued_def)

lemma filter_create_replicate [simp]:
  "filter is_create (replicate n (DeleteSampler s)) = []"
  by (induction n) simp_all

lemma filter_parameter_replicate [simp]:
  "filter is_parameter (replicate n (DeleteSampler s)) = []"
  by (induction n) simp_all

lemma inv_outcome_pending:
  "inv c0 g0 s0 w \<Longrightarrow> ready (self w) = Pending \<Longrightarrow> outcomes w = []"
  by (simp add: inv_def)

lemma inv_outcome_failed:
  "inv c0 g0 s0 w \<Longrightarrow> ready (self w) = Failed \<Longrightarrow> x \<in> set (outcomes w) \<Longrightarrow>
     snd x = Rejected"
  by (simp add: inv_def)

lemma inv_outcome_ready:
  "inv c0 g0 s0 w \<Longrightarrow> ready (self w) = Ready \<Longrightarrow> x \<in> set (outcomes w) \<Longrightarrow>
     x = (GetSamplerTask, Returned (Some (first_handle g0))) \<or> x = (DeleteTask, Completed)"
  by (simp add: inv_def)

lemma inv_creations:
  assumes "inv c0 g0 s0 w"
  shows "length (filter is_create (issued g0 w)) = (if ready (self w) = Ready then 1 else 0)"
  by (simp add: inv_issued [OF assms] init_calls_def)

lemma step_first_call:
  assumes i: "inv c0 g0 s0 w" and "gl w = g0" and "gl (step e w) \<noteq> g0"
  shows "context_ready w = Ready \<and> e = Routine"
proof (cases e)
  case (ContextSettles ok)
  with assms show ?thesis by (simp split: if_splits)
next
  case Routine
  with assms show ?thesis
    by (auto simp: ContextConsumer_routine_def settle_def resume_gl_unready
        split: if_splits Readiness.splits)
next
  case GetSampler
  with assms show ?thesis
    by (cases "ready (self w)")
      (auto simp: Sampler_getSampler_def await_ready_def getSampler_return_def)
next
  case Delete
  with assms show ?thesis
    by (cases "ready (self w)")
      (auto simp: Sampler_delete_def await_ready_def inv_def init_calls_def)
qed

lemma getSampler_cases:
  "Sampler_getSampler w =
     (case ready (self w) of
        Pending \<Rightarrow> w\<lparr>waiting := waiting w @ [GetSamplerTask]\<rparr>
      | Failed \<Rightarrow> w\<lparr>outcomes := outcomes w @ [(GetSamplerTask, Rejected)]\<rparr>
      | Ready \<Rightarrow> w\<lparr>outcomes := outcomes w @ [(GetSamplerTask, Returned (sampler (self w)))]\<rparr>)"
  by (simp add: Sampler_getSampler_def await_ready_def getSampler_return_def
      split: Readiness.splits)

lemma delete_cases:
  "Sampler_delete w =
     (case ready (self w) of
        Pending \<Rightarrow> w\<lparr>waiting := waiting w @ [DeleteTask]\<rparr>
      | Failed \<Rightarrow> w\<lparr>outcomes := outcomes w @ [(DeleteTask, Rejected)]\<rparr>
      | Ready \<Rightarrow>
          w\<lparr>gl := (gl w)\<lparr>calls := calls (gl w) @ [DeleteSampler (sampler (self w))]\<rparr>,
            outcomes := outcomes w @ [(DeleteTask, Completed)]\<rparr>)"
  by (simp add: Sampler_delete_def await_ready_def delete_release_def deleteSampler_def
      split: Readiness.splits)

lemma filter_delete_replicate [simp]:
  "filter is_delete (replicate n (DeleteSampler s)) = replicate n (DeleteSampler s)"
  by (induction n) simp_all

section \<open>The claims\<close>

text \<open>
  C1. Format inference is total over the storage-format enumeration: for every member
  of \<^verbatim>\<open>TextureStorageFormat\<close>, \<^verbatim>\<open>inferFormatFromStorageFormat\<close> returns a defined base
  format; no member falls through to \<^verbatim>\<open>undefined\<close>. The function is the one modelled
  from section 4.3 of the specification.
\<close>

theorem C1_inferFormat_total: "\<exists>f. inferFormatFromStorageFormat internal = Some f"
  by (cases internal) (simp_all add: inferFormatFromStorageFormat_def irregular_formats_def)

text \<open>
  C2. A sampler constructed with no explicit configuration (no argument, or an object
  whose nine configuration properties are all \<^verbatim>\<open>undefined\<close>, with or without a context
  reference), once its readiness has resolved (whatever the interleaving of context
  settlement, scheduler turns and calls that led there), owns the handle the context
  handed out, and the first ten native calls issued are the creation of that handle
  followed by one parameter call per field with the default values: linear minification
  and magnification filters, clamp-to-edge on s, t and r, level-of-detail bounds -1000
  and 1000, comparison mode none, comparison function less-or-equal. No other parameter
  call is ever issued.
\<close>

theorem C2_default_configuration:
  assumes n: "no_configuration arg"
    and w: "w = run es (new_Sampler c0 g0 arg)"
    and r: "ready (self w) = Ready"
    and h: "h = first_handle g0"
  shows "sampler (self w) = Some h
    \<and> take 10 (issued g0 w) =
        [CreateSampler h,
         SamplerParameteri h TEXTURE_MIN_FILTER (MinFilter TextureMinFilter_linear),
         SamplerParameteri h TEXTURE_MAG_FILTER (MagFilter TextureMagFilter_linear),
         SamplerParameteri h TEXTURE_WRAP_S (Wrap TextureWrap_clampToEdge),
         SamplerParameteri h TEXTURE_WRAP_T (Wrap TextureWrap_clampToEdge),
         SamplerParameteri h TEXTURE_WRAP_R (Wrap TextureWrap_clampToEdge),
         SamplerParameterf h TEXTURE_MIN_LOD (- 1000),
         SamplerParameterf h TEXTURE_MAX_LOD 1000,
         SamplerParameteri h TEXTURE_COMPARE_MODE (CompareMode TextureCompareMode_none),
         SamplerParameteri h TEXTURE_COMPARE_FUNC
           (CompareFunc TextureCompareFunc_lessOrEqual)]
    \<and> filter is_parameter (issued g0 w) =
        [SamplerParameteri h TEXTURE_MIN_FILTER (MinFilter TextureMinFilter_linear),
         SamplerParameteri h TEXTURE_MAG_FILTER (MagFilter TextureMagFilter_linear),
         SamplerParameteri h TEXTURE_WRAP_S (Wrap TextureWrap_clampToEdge),
         SamplerParameteri h TEXTURE_WRAP_T (Wrap TextureWrap_clampToEdge),
         SamplerParameteri h TEXTURE_WRAP_R (Wrap TextureWrap_clampToEdge),
         SamplerParameterf h TEXTURE_MIN_LOD (- 1000),
         SamplerParameterf h TEXTURE_MAX_LOD 1000,
         SamplerParameteri h TEXTURE_COMPARE_MODE (CompareMode TextureCompareMode_none),
         SamplerParameteri h TEXTURE_COMPARE_FUNC
           (CompareFunc TextureCompareFunc_lessOrEqual)]"
proof -
  have i: "inv c0 g0 (Sampler_constructor arg) w"
    unfolding w by (rule inv_reachable)
  have s: "sampler (self w) = Some h"
    using i r h by (simp add: inv_def)
  have c: "captured (Sampler_constructor arg) =
        \<lparr>v_minFilter = TextureMinFilter_linear, v_magFilter = TextureMagFilter_linear,
         v_wrapS = TextureWrap_clampToEdge, v_wrapT = TextureWrap_clampToEdge,
         v_wrapR = TextureWrap_clampToEdge, v_minLod = - 1000, v_maxLod = 1000,
         v_compareMode = TextureCompareMode_none,
         v_compareFunc = TextureCompareFunc_lessOrEqual\<rparr>"
    using n
    by (simp add: no_configuration_def Sampler_constructor_def Let_def destructure_def
        default_to_def [of _ None])
  have e: "issued g0 w = init_calls (captured (Sampler_constructor arg)) h
             @ replicate (deletions (outcomes w)) (DeleteSampler (Some h))"
    using inv_issued [OF i] r h by simp
  show ?thesis
    using s by (simp add: e c init_calls_def)
qed

theorem C2_default_configuration_witness:
  "no_configuration (Some (empty_props\<lparr>context_prop := Some (Context 7)\<rparr>))
   \<and> ready (self (run [ContextSettles True, Routine]
          (new_Sampler Pending \<lparr>calls = [], next_sampler = 0\<rparr> (Some (empty_props\<lparr>context_prop := Some (Context 7)\<rparr>))))) = Ready
   \<and> take 10 (issued \<lparr>calls = [], next_sampler = 0\<rparr>
        (run [ContextSettles True, Routine]
          (new_Sampler Pending \<lparr>calls = [], next_sampler = 0\<rparr> (Some (empty_props\<lparr>context_prop := Some (Context 7)\<rparr>))))) =
        [CreateSampler (WebGLSampler 0),
         SamplerParameteri (WebGLSampler 0) TEXTURE_MIN_FILTER (MinFilter TextureMinFilter_linear),
         SamplerParameteri (WebGLSampler 0) TEXTURE_MAG_FILTER (MagFilter TextureMagFilter_linear),
         SamplerParameteri (WebGLSampler 0) TEXTURE_WRAP_S (Wrap TextureWrap_clampToEdge),
         SamplerParameteri (WebGLSampler 0) TEXTURE_WRAP_T (Wrap TextureWrap_clampToEdge),
         SamplerParameteri (WebGLSampler 0) TEXTURE_WRAP_R (Wrap TextureWrap_clampToEdge),
         SamplerParameterf (WebGLSampler 0) TEXTURE_MIN_LOD (- 1000),
         SamplerParameterf (WebGLSampler 0) TEXTURE_MAX_LOD 1000,
         SamplerParameteri (WebGLSampler 0) TEXTURE_COMPARE_MODE (CompareMode TextureCompareMode_none),
         SamplerParameteri (WebGLSampler 0) TEXTURE_COMPARE_FUNC
           (CompareFunc TextureCompareFunc_lessOrEqual)]
   \<and> filter is_parameter (issued \<lparr>calls = [], next_sampler = 0\<rparr>
        (run [ContextSettles True, Routine]
          (new_Sampler Pending \<lparr>calls = [], next_sampler = 0\<rparr> (Some (empty_props\<lparr>context_prop := Some (Context 7)\<rparr>))))) =
        [SamplerParameteri (WebGLSampler 0) TEXTURE_MIN_FILTER (MinFilter TextureMinFilter_linear),
         SamplerParameteri (WebGLSampler 0) TEXTURE_MAG_FILTER (MagFilter TextureMagFilter_linear),
         SamplerParameteri (WebGLSampler 0) TEXTURE_WRAP_S (Wrap TextureWrap_clampToEdge),
         SamplerParameteri (WebGLSampler 0) TEXTURE_WRAP_T (Wrap TextureWrap_clampToEdge),
         SamplerParameteri (WebGLSampler 0) TEXTURE_WRAP_R (Wrap TextureWrap_clampToEdge),
         SamplerParameterf (WebGLSampler 0) TEXTURE_MIN_LOD (- 1000),
         SamplerParameterf (WebGLSampler 0) TEXTURE_MAX_LOD 1000,
         SamplerParameteri (WebGLSampler 0) TEXTURE_COMPARE_MODE (CompareMode TextureCompareMode_none),
         SamplerParameteri (WebGLSampler 0) TEXTURE_COMPARE_FUNC
           (CompareFunc TextureCompareFunc_lessOrEqual)]
   \<and> no_configuration None
   \<and> ready (self (run [ContextSettles True, Routine]
          (new_Sampler Pending \<lparr>calls = [], next_sampler = 0\<rparr> None))) = Ready
   \<and> take 10 (issued \<lparr>calls = [], next_sampler = 0\<rparr>
        (run [ContextSettles True, Routine]
          (new_Sampler Pending \<lparr>calls = [], next_sampler = 0\<rparr> None))) =
        [CreateSampler (WebGLSampler 0),
         SamplerParameteri (WebGLSampler 0) TEXTURE_MIN_FILTER (MinFilter TextureMinFilter_linear),
         SamplerParameteri (WebGLSampler 0) TEXTURE_MAG_FILTER (MagFilter TextureMagFilter_linear),
         SamplerParameteri (WebGLSampler 0) TEXTURE_WRAP_S (Wrap TextureWrap_clampToEdge),
         SamplerParameteri (WebGLSampler 0) TEXTURE_WRAP_T (Wrap TextureWrap_clampToEdge),
         SamplerParameteri (WebGLSampler 0) TEXTURE_WRAP_R (Wrap TextureWrap_clampToEdge),
         SamplerParameterf (WebGLSampler 0) TEXTURE_MIN_LOD (- 1000),
         SamplerParameterf (WebGLSampler 0) TEXTURE_MAX_LOD 1000,
         SamplerParameteri (WebGLSampler 0) TEXTURE_COMPARE_MODE (CompareMode TextureCompareMode_none),
         SamplerParameteri (WebGLSampler 0) TEXTURE_COMPARE_FUNC
           (CompareFunc TextureCompareFunc_lessOrEqual)]"
proof -
  have n: "no_configuration (Some (empty_props\<lparr>context_prop := Some (Context 7)\<rparr>))"
    by (simp add: no_configuration_def default_to_def empty_props_def)
  have r: "ready (self (run [ContextSettles True, Routine]
          (new_Sampler Pending \<lparr>calls = [], next_sampler = 0\<rparr> (Some (empty_props\<lparr>context_prop := Some (Context 7)\<rparr>))))) = Ready"
    by (simp add: new_Sampler_def Sampler_constructor_def ContextConsumer_routine_def
        settle_def split_beta Let_def)
  have h: "WebGLSampler 0 = first_handle \<lparr>calls = [], next_sampler = 0\<rparr>"
    by (simp add: first_handle_def)
  have n': "no_configuration None"
    by (simp add: no_configuration_def default_to_def empty_props_def)
  have r': "ready (self (run [ContextSettles True, Routine]
          (new_Sampler Pending \<lparr>calls = [], next_sampler = 0\<rparr> None))) = Ready"
    by (simp add: new_Sampler_def Sampler_constructor_def ContextConsumer_routine_def
        settle_def split_beta Let_def)
  from C2_default_configuration [OF n refl r h] C2_default_configuration [OF n' refl r' h]
    n r n' r'
  show ?thesis by simp
qed

text \<open>
  C3. In every world reachable from a construction, the initializer body has run at
  most once (the issued calls hold at most one \<^verbatim>\<open>createSampler\<close>, exactly one when the
  signal is ready); once the signal has settled, no further event changes it or runs
  the initializer again; every settled call observed a settled signal and was rejected
  exactly when the signal failed; and any two settled calls of the same method have the
  same outcome. The base class is the one modelled from section 4.1.
\<close>

theorem C3_initializer_once_outcome_cached:
  assumes w: "w = run es (new_Sampler c0 g0 arg)"
  shows "length (filter is_create (issued g0 w)) \<le> 1
    \<and> (ready (self w) = Ready \<longrightarrow> length (filter is_create (issued g0 w)) = 1)
    \<and> (ready (self w) \<noteq> Pending \<longrightarrow>
         ready (self (run es' w)) = ready (self w)
         \<and> length (filter is_create (issued g0 (run es' w))) =
             length (filter is_create (issued g0 w)))
    \<and> (\<forall>x \<in> set (outcomes w).
          ready (self w) \<noteq> Pending \<and> (snd x = Rejected \<longleftrightarrow> ready (self w) = Failed))
    \<and> (\<forall>x \<in> set (outcomes w). \<forall>y \<in> set (outcomes w). fst x = fst y \<longrightarrow> snd x = snd y)"
proof -
  have i: "inv c0 g0 (Sampler_constructor arg) w"
    unfolding w by (rule inv_reachable)
  have i': "inv c0 g0 (Sampler_constructor arg) (run es' w)"
    by (rule inv_run [OF i])
  have a: "length (filter is_create (issued g0 w)) \<le> 1"
    by (simp add: inv_creations [OF i])
  have b: "ready (self w) = Ready \<longrightarrow> length (filter is_create (issued g0 w)) = 1"
    by (simp add: inv_creations [OF i])
  have c: "ready (self w) \<noteq> Pending \<longrightarrow>
         ready (self (run es' w)) = ready (self w)
         \<and> length (filter is_create (issued g0 (run es' w))) =
             length (filter is_create (issued g0 w))"
    by (simp add: inv_creations [OF i] inv_creations [OF i'] run_settled)
  have d: "\<forall>x \<in> set (outcomes w).
          ready (self w) \<noteq> Pending \<and> (snd x = Rejected \<longleftrightarrow> ready (self w) = Failed)"
    using i by (cases "ready (self w)") (auto simp: inv_def)
  have e: "\<forall>x \<in> set (outcomes w). \<forall>y \<in> set (outcomes w). fst x = fst y \<longrightarrow> snd x = snd y"
  proof (intro ballI impI)
    fix x y
    assume x: "x \<in> set (outcomes w)" and y: "y \<in> set (outcomes w)" and xy: "fst x = fst y"
    show "snd x = snd y"
    proof (cases "ready (self w)")
      case Pending
      with inv_outcome_pending [OF i] x show ?thesis by simp
    next
      case Failed
      with inv_outcome_failed [OF i] x y show ?thesis by simp
    next
      case Ready
      from inv_outcome_ready [OF i Ready x] inv_outcome_ready [OF i Ready y] xy
      show ?thesis by auto
    qed
  qed
  from a b c d e show ?thesis by blast
qed

theorem C3_initializer_once_outcome_cached_witness:
  "ready (self (run [GetSampler, GetSampler, ContextSettles True, Routine, GetSampler] (new_Sampler Pending \<lparr>calls = [], next_sampler = 0\<rparr> None))) = Ready
   \<and> length (filter is_create (issued \<lparr>calls = [], next_sampler = 0\<rparr> (run [GetSampler, GetSampler, ContextSettles True, Routine, GetSampler] (new_Sampler Pending \<lparr>calls = [], next_sampler = 0\<rparr> None)))) = 1
   \<and> ready (self (run [Routine, GetSampler, Routine] (run [GetSampler, GetSampler, ContextSettles True, Routine, GetSampler] (new_Sampler Pending \<lparr>calls = [], next_sampler = 0\<rparr> None)))) = Ready
   \<and> length (filter is_create (issued \<lparr>calls = [], next_sampler = 0\<rparr> (run [Routine, GetSampler, Routine] (run [GetSampler, GetSampler, ContextSettles True, Routine, GetSampler] (new_Sampler Pending \<lparr>calls = [], next_sampler = 0\<rparr> None))))) = 1
   \<and> outcomes (run [GetSampler, GetSampler, ContextSettles True, Routine, GetSampler] (new_Sampler Pending \<lparr>calls = [], next_sampler = 0\<rparr> None)) =
       [(GetSamplerTask, Returned (Some (WebGLSampler 0))),
        (GetSamplerTask, Returned (Some (WebGLSampler 0))),
        (GetSamplerTask, Returned (Some (WebGLSampler 0)))]"
proof -
  have r: "ready (self (run [GetSampler, GetSampler, ContextSettles True, Routine, GetSampler] (new_Sampler Pending \<lparr>calls = [], next_sampler = 0\<rparr> None))) = Ready"
    by (simp add: new_Sampler_def Sampler_constructor_def ContextConsumer_routine_def settle_def split_beta Let_def Sampler_getSampler_def Sampler_delete_def await_ready_def getSampler_return_def delete_release_def)
  have o: "outcomes (run [GetSampler, GetSampler, ContextSettles True, Routine, GetSampler] (new_Sampler Pending \<lparr>calls = [], next_sampler = 0\<rparr> None)) =
       [(GetSamplerTask, Returned (Some (WebGLSampler 0))),
        (GetSamplerTask, Returned (Some (WebGLSampler 0))),
        (GetSamplerTask, Returned (Some (WebGLSampler 0)))]"
    by (simp add: new_Sampler_def Sampler_constructor_def ContextConsumer_routine_def settle_def split_beta Let_def Sampler_getSampler_def Sampler_delete_def await_ready_def getSampler_return_def delete_release_def initializer_def createSampler_def)
  from C3_initializer_once_outcome_cached
    [where es = "[GetSampler, GetSampler, ContextSettles True, Routine, GetSampler]"
      and ?c0.0 = Pending and ?g0.0 = "\<lparr>calls = [], next_sampler = 0\<rparr>" and arg = None
      and es' = "[Routine, GetSampler, Routine]", OF refl] r
  have "length (filter is_create (issued \<lparr>calls = [], next_sampler = 0\<rparr> (run [GetSampler, GetSampler, ContextSettles True, Routine, GetSampler] (new_Sampler Pending \<lparr>calls = [], next_sampler = 0\<rparr> None)))) = 1
   \<and> ready (self (run [Routine, GetSampler, Routine] (run [GetSampler, GetSampler, ContextSettles True, Routine, GetSampler] (new_Sampler Pending \<lparr>calls = [], next_sampler = 0\<rparr> None)))) = Ready
   \<and> length (filter is_create (issued \<lparr>calls = [], next_sampler = 0\<rparr> (run [Routine, GetSampler, Routine] (run [GetSampler, GetSampler, ContextSettles True, Routine, GetSampler] (new_Sampler Pending \<lparr>calls = [], next_sampler = 0\<rparr> None))))) = 1"
    by simp
  with r o show ?thesis by blast
qed

text \<open>
  C4. Context readiness comes before initialization. While the context's signal is
  pending, the sampler's signal is pending, no native call has been issued, no handle
  is stored, and a turn of the routine changes nothing. Any issued native call, and a
  ready sampler, imply a ready context. The step that issues the first native call is a
  turn of the routine taken when the context was already ready. The base class is the
  one modelled from section 4.1.
\<close>

theorem C4_context_ready_before_initializer:
  assumes w: "w = run es (new_Sampler c0 g0 arg)"
  shows "(context_ready w = Pending \<longrightarrow>
            ready (self w) = Pending \<and> gl w = g0 \<and> sampler (self w) = None
            \<and> ContextConsumer_routine w = w)
    \<and> (issued g0 w \<noteq> [] \<longrightarrow> context_ready w = Ready)
    \<and> (ready (self w) = Ready \<longrightarrow> context_ready w = Ready)
    \<and> (gl w = g0 \<and> gl (step e w) \<noteq> g0 \<longrightarrow> context_ready w = Ready \<and> e = Routine)"
proof -
  have i: "inv c0 g0 (Sampler_constructor arg) w"
    unfolding w by (rule inv_reachable)
  have a: "context_ready w = Pending \<longrightarrow>
            ready (self w) = Pending \<and> gl w = g0 \<and> sampler (self w) = None
            \<and> ContextConsumer_routine w = w"
    using i by (cases "ready (self w)") (auto simp: inv_def ContextConsumer_routine_def)
  have b: "issued g0 w \<noteq> [] \<longrightarrow> context_ready w = Ready"
    using i inv_issued [OF i] by (cases "ready (self w)") (auto simp: inv_def)
  have c: "ready (self w) = Ready \<longrightarrow> context_ready w = Ready"
    using i by (auto simp: inv_def)
  have d: "gl w = g0 \<and> gl (step e w) \<noteq> g0 \<longrightarrow> context_ready w = Ready \<and> e = Routine"
    using step_first_call [OF i] by blast
  from a b c d show ?thesis by blast
qed

theorem C4_context_ready_before_initializer_witness:
  "context_ready (run [Delete, Routine, GetSampler] (new_Sampler Pending \<lparr>calls = [], next_sampler = 0\<rparr> None)) = Pending
   \<and> ready (self (run [Delete, Routine, GetSampler] (new_Sampler Pending \<lparr>calls = [], next_sampler = 0\<rparr> None))) = Pending
   \<and> gl (run [Delete, Routine, GetSampler] (new_Sampler Pending \<lparr>calls = [], next_sampler = 0\<rparr> None)) = \<lparr>calls = [], next_sampler = 0\<rparr>
   \<and> ContextConsumer_routine (run [Delete, Routine, GetSampler] (new_Sampler Pending \<lparr>calls = [], next_sampler = 0\<rparr> None)) = (run [Delete, Routine, GetSampler] (new_Sampler Pending \<lparr>calls = [], next_sampler = 0\<rparr> None))
   \<and> issued \<lparr>calls = [], next_sampler = 0\<rparr> (run [GetSampler, ContextSettles True, Routine] (new_Sampler Pending \<lparr>calls = [], next_sampler = 0\<rparr> None)) = [CreateSampler (WebGLSampler 0),
        SamplerParameteri (WebGLSampler 0) TEXTURE_MIN_FILTER (MinFilter TextureMinFilter_linear),
        SamplerParameteri (WebGLSampler 0) TEXTURE_MAG_FILTER (MagFilter TextureMagFilter_linear),
        SamplerParameteri (WebGLSampler 0) TEXTURE_WRAP_S (Wrap TextureWrap_clampToEdge),
        SamplerParameteri (WebGLSampler 0) TEXTURE_WRAP_T (Wrap TextureWrap_clampToEdge),
        SamplerParameteri (WebGLSampler 0) TEXTURE_WRAP_R (Wrap TextureWrap_clampToEdge),
        SamplerParameterf (WebGLSampler 0) TEXTURE_MIN_LOD (- 1000),
        SamplerParameterf (WebGLSampler 0) TEXTURE_MAX_LOD 1000,
        SamplerParameteri (WebGLSampler 0) TEXTURE_COMPARE_MODE (CompareMode TextureCompareMode_none),
        SamplerParameteri (WebGLSampler 0) TEXTURE_COMPARE_FUNC
          (CompareFunc TextureCompareFunc_lessOrEqual)]
   \<and> context_ready (run [GetSampler, ContextSettles True, Routine] (new_Sampler Pending \<lparr>calls = [], next_sampler = 0\<rparr> None)) = Ready"
proof -
  have p: "context_ready (run [Delete, Routine, GetSampler] (new_Sampler Pending \<lparr>calls = [], next_sampler = 0\<rparr> None)) = Pending"
    by (simp add: new_Sampler_def Sampler_constructor_def ContextConsumer_routine_def settle_def split_beta Let_def Sampler_getSampler_def Sampler_delete_def await_ready_def getSampler_return_def delete_release_def)
  from C4_context_ready_before_initializer [where es = "[Delete, Routine, GetSampler]" and ?c0.0 = Pending and ?g0.0 = "\<lparr>calls = [], next_sampler = 0\<rparr>" and arg = None, OF refl] p
  have a: "ready (self (run [Delete, Routine, GetSampler] (new_Sampler Pending \<lparr>calls = [], next_sampler = 0\<rparr> None))) = Pending
   \<and> gl (run [Delete, Routine, GetSampler] (new_Sampler Pending \<lparr>calls = [], next_sampler = 0\<rparr> None)) = \<lparr>calls = [], next_sampler = 0\<rparr>
   \<and> ContextConsumer_routine (run [Delete, Routine, GetSampler] (new_Sampler Pending \<lparr>calls = [], next_sampler = 0\<rparr> None)) = (run [Delete, Routine, GetSampler] (new_Sampler Pending \<lparr>calls = [], next_sampler = 0\<rparr> None))"
    by blast
  have q: "issued \<lparr>calls = [], next_sampler = 0\<rparr> (run [GetSampler, ContextSettles True, Routine] (new_Sampler Pending \<lparr>calls = [], next_sampler = 0\<rparr> None)) = [CreateSampler (WebGLSampler 0),
        SamplerParameteri (WebGLSampler 0) TEXTURE_MIN_FILTER (MinFilter TextureMinFilter_linear),
        SamplerParameteri (WebGLSampler 0) TEXTURE_MAG_FILTER (MagFilter TextureMagFilter_linear),
        SamplerParameteri (WebGLSampler 0) TEXTURE_WRAP_S (Wrap TextureWrap_clampToEdge),
        SamplerParameteri (WebGLSampler 0) TEXTURE_WRAP_T (Wrap TextureWrap_clampToEdge),
        SamplerParameteri (WebGLSampler 0) TEXTURE_WRAP_R (Wrap TextureWrap_clampToEdge),
        SamplerParameterf (WebGLSampler 0) TEXTURE_MIN_LOD (- 1000),
        SamplerParameterf (WebGLSampler 0) TEXTURE_MAX_LOD 1000,
        SamplerParameteri (WebGLSampler 0) TEXTURE_COMPARE_MODE (CompareMode TextureCompareMode_none),
        SamplerParameteri (WebGLSampler 0) TEXTURE_COMPARE_FUNC
          (CompareFunc TextureCompareFunc_lessOrEqual)]"
    by (simp add: new_Sampler_def Sampler_constructor_def ContextConsumer_routine_def settle_def split_beta Let_def Sampler_getSampler_def Sampler_delete_def await_ready_def getSampler_return_def delete_release_def issued_def initializer_def createSampler_def samplerParameteri_def samplerParameterf_def deleteSampler_def default_to_def empty_props_def destructure_def)
  then have "issued \<lparr>calls = [], next_sampler = 0\<rparr> (run [GetSampler, ContextSettles True, Routine] (new_Sampler Pending \<lparr>calls = [], next_sampler = 0\<rparr> None)) \<noteq> []"
    by simp
  with C4_context_ready_before_initializer [where es = "[GetSampler, ContextSettles True, Routine]" and ?c0.0 = Pending and ?g0.0 = "\<lparr>calls = [], next_sampler = 0\<rparr>" and arg = None, OF refl]
  have b: "context_ready (run [GetSampler, ContextSettles True, Routine] (new_Sampler Pending \<lparr>calls = [], next_sampler = 0\<rparr> None)) = Ready"
    by blast
  from p a q b show ?thesis by blast
qed

text \<open>
  C5. When the context's signal has resolved to failure, the sampler is not ready; the
  next turn of the routine resolves its signal to failure, for good; and whatever
  happens afterwards, the native state is the one the context had at construction (no
  create, parameter or delete call) and every settled call was rejected. The base class
  is the one modelled from section 4.1.
\<close>

theorem C5_context_failure_propagates:
  assumes w: "w = run es (new_Sampler c0 g0 arg)"
    and f: "context_ready w = Failed"
  shows "ready (self w) \<noteq> Ready
    \<and> ready (self (run (Routine # es') w)) = Failed
    \<and> gl (run es' w) = g0
    \<and> (\<forall>x \<in> set (outcomes (run es' w)). snd x = Rejected)"
proof -
  have i: "inv c0 g0 (Sampler_constructor arg) w"
    unfolding w by (rule inv_reachable)
  have i': "inv c0 g0 (Sampler_constructor arg) (run es' w)"
    by (rule inv_run [OF i])
  have f': "context_ready (run es' w) = Failed"
    by (rule run_context_failed [OF f])
  have a: "ready (self w) \<noteq> Ready"
    using i f by (auto simp: inv_def)
  have "ready (self (step Routine w)) = Failed"
    using a f by (cases "ready (self w)") (simp_all add: ContextConsumer_routine_def settle_def)
  then have b: "ready (self (run (Routine # es') w)) = Failed"
    by (simp add: run_settled)
  have c: "gl (run es' w) = g0"
    using i' f' by (cases "ready (self (run es' w))") (auto simp: inv_def)
  have d: "\<forall>x \<in> set (outcomes (run es' w)). snd x = Rejected"
    using i' f' by (cases "ready (self (run es' w))") (auto simp: inv_def)
  from a b c d show ?thesis by blast
qed

theorem C5_context_failure_propagates_witness:
  "context_ready (run [GetSampler, Delete, ContextSettles False] (new_Sampler Pending \<lparr>calls = [], next_sampler = 0\<rparr> None)) = Failed
   \<and> ready (self (run [Routine, GetSampler, Delete] (run [GetSampler, Delete, ContextSettles False] (new_Sampler Pending \<lparr>calls = [], next_sampler = 0\<rparr> None)))) = Failed
   \<and> gl (run [Routine, GetSampler, Delete] (run [GetSampler, Delete, ContextSettles False] (new_Sampler Pending \<lparr>calls = [], next_sampler = 0\<rparr> None))) = \<lparr>calls = [], next_sampler = 0\<rparr>
   \<and> outcomes (run [Routine, GetSampler, Delete] (run [GetSampler, Delete, ContextSettles False] (new_Sampler Pending \<lparr>calls = [], next_sampler = 0\<rparr> None))) =
       [(GetSamplerTask, Rejected), (DeleteTask, Rejected),
        (GetSamplerTask, Rejected), (DeleteTask, Rejected)]"
proof -
  have f: "context_ready (run [GetSampler, Delete, ContextSettles False] (new_Sampler Pending \<lparr>calls = [], next_sampler = 0\<rparr> None)) = Failed"
    by (simp add: new_Sampler_def Sampler_constructor_def ContextConsumer_routine_def settle_def split_beta Let_def Sampler_getSampler_def Sampler_delete_def await_ready_def getSampler_return_def delete_release_def)
  from C5_context_failure_propagates
    [where es = "[GetSampler, Delete, ContextSettles False]" and ?c0.0 = Pending and ?g0.0 = "\<lparr>calls = [], next_sampler = 0\<rparr>" and arg = None and es' = "[GetSampler, Delete]", OF refl] f
  have a: "ready (self (run [Routine, GetSampler, Delete] (run [GetSampler, Delete, ContextSettles False] (new_Sampler Pending \<lparr>calls = [], next_sampler = 0\<rparr> None)))) = Failed"
    by blast
  from C5_context_failure_propagates
    [where es = "[GetSampler, Delete, ContextSettles False]" and ?c0.0 = Pending and ?g0.0 = "\<lparr>calls = [], next_sampler = 0\<rparr>" and arg = None and es' = "[Routine, GetSampler, Delete]", OF refl] f
  have b: "gl (run [Routine, GetSampler, Delete] (run [GetSampler, Delete, ContextSettles False] (new_Sampler Pending \<lparr>calls = [], next_sampler = 0\<rparr> None))) = \<lparr>calls = [], next_sampler = 0\<rparr>"
    by blast
  have c: "outcomes (run [Routine, GetSampler, Delete] (run [GetSampler, Delete, ContextSettles False] (new_Sampler Pending \<lparr>calls = [], next_sampler = 0\<rparr> None))) =
       [(GetSamplerTask, Rejected), (DeleteTask, Rejected),
        (GetSamplerTask, Rejected), (DeleteTask, Rejected)]"
    by (simp add: new_Sampler_def Sampler_constructor_def ContextConsumer_routine_def settle_def split_beta Let_def Sampler_getSampler_def Sampler_delete_def await_ready_def getSampler_return_def delete_release_def)
  from f a b c show ?thesis by blast
qed

text \<open>
  C6. \<^verbatim>\<open>getSampler\<close> awaits the signal first: on a pending signal the call is parked and
  nothing settles, on a failed one it is rejected, on a ready one it returns the stored
  handle. It is repeatable (two calls in a row return the same handle) and changes
  neither the object nor the native state nor the context's signal. In every reachable
  world, each call of \<^verbatim>\<open>getSampler\<close> that settled was rejected or returned the one handle
  created for this sampler, which is the handle stored.
\<close>

theorem C6_getSampler_returns_stored_handle:
  "(ready (self w) = Pending \<longrightarrow>
      Sampler_getSampler w = w\<lparr>waiting := waiting w @ [GetSamplerTask]\<rparr>)
   \<and> (ready (self w) = Failed \<longrightarrow>
      Sampler_getSampler w = w\<lparr>outcomes := outcomes w @ [(GetSamplerTask, Rejected)]\<rparr>)
   \<and> (ready (self w) = Ready \<longrightarrow>
      Sampler_getSampler w =
        w\<lparr>outcomes := outcomes w @ [(GetSamplerTask, Returned (sampler (self w)))]\<rparr>
      \<and> outcomes (Sampler_getSampler (Sampler_getSampler w)) =
        outcomes w @ [(GetSamplerTask, Returned (sampler (self w))),
                      (GetSamplerTask, Returned (sampler (self w)))])
   \<and> self (Sampler_getSampler w) = self w
   \<and> gl (Sampler_getSampler w) = gl w
   \<and> context_ready (Sampler_getSampler w) = context_ready w
   \<and> (w = run es (new_Sampler c0 g0 arg) \<longrightarrow>
        (\<forall>x \<in> set (outcomes w). fst x = GetSamplerTask \<longrightarrow>
           snd x = Rejected
           \<or> snd x = Returned (Some (first_handle g0))
             \<and> sampler (self w) = Some (first_handle g0)))"
proof -
  have a: "ready (self w) = Pending \<longrightarrow>
      Sampler_getSampler w = w\<lparr>waiting := waiting w @ [GetSamplerTask]\<rparr>"
    by (simp add: getSampler_cases)
  have b: "ready (self w) = Failed \<longrightarrow>
      Sampler_getSampler w = w\<lparr>outcomes := outcomes w @ [(GetSamplerTask, Rejected)]\<rparr>"
    by (simp add: getSampler_cases)
  have c: "ready (self w) = Ready \<longrightarrow>
      Sampler_getSampler w =
        w\<lparr>outcomes := outcomes w @ [(GetSamplerTask, Returned (sampler (self w)))]\<rparr>
      \<and> outcomes (Sampler_getSampler (Sampler_getSampler w)) =
        outcomes w @ [(GetSamplerTask, Returned (sampler (self w))),
                      (GetSamplerTask, Returned (sampler (self w)))]"
    by (simp add: getSampler_cases)
  have d: "self (Sampler_getSampler w) = self w \<and> gl (Sampler_getSampler w) = gl w
      \<and> context_ready (Sampler_getSampler w) = context_ready w"
    by (cases "ready (self w)") (simp_all add: getSampler_cases)
  have e: "w = run es (new_Sampler c0 g0 arg) \<longrightarrow>
        (\<forall>x \<in> set (outcomes w). fst x = GetSamplerTask \<longrightarrow>
           snd x = Rejected
           \<or> snd x = Returned (Some (first_handle g0))
             \<and> sampler (self w) = Some (first_handle g0))"
  proof (intro impI ballI)
    fix x
    assume w: "w = run es (new_Sampler c0 g0 arg)"
      and x: "x \<in> set (outcomes w)" and g: "fst x = GetSamplerTask"
    have i: "inv c0 g0 (Sampler_constructor arg) w"
      unfolding w by (rule inv_reachable)
    show "snd x = Rejected
           \<or> snd x = Returned (Some (first_handle g0))
             \<and> sampler (self w) = Some (first_handle g0)"
    proof (cases "ready (self w)")
      case Pending
      with inv_outcome_pending [OF i] x show ?thesis by simp
    next
      case Failed
      with inv_outcome_failed [OF i] x show ?thesis by simp
    next
      case Ready
      from i Ready have "sampler (self w) = Some (first_handle g0)"
        by (simp add: inv_def)
      with inv_outcome_ready [OF i Ready x] g show ?thesis by auto
    qed
  qed
  from a b c d e show ?thesis by blast
qed

theorem C6_getSampler_returns_stored_handle_witness:
  "ready (self (new_Sampler Pending \<lparr>calls = [], next_sampler = 0\<rparr> None)) = Pending
   \<and> waiting (Sampler_getSampler (new_Sampler Pending \<lparr>calls = [], next_sampler = 0\<rparr> None)) = [GetSamplerTask]
   \<and> outcomes (Sampler_getSampler (new_Sampler Pending \<lparr>calls = [], next_sampler = 0\<rparr> None)) = []
   \<and> ready (self (run [ContextSettles True, Routine] (new_Sampler Pending \<lparr>calls = [], next_sampler = 0\<rparr> None))) = Ready
   \<and> sampler (self (run [ContextSettles True, Routine] (new_Sampler Pending \<lparr>calls = [], next_sampler = 0\<rparr> None))) = Some (WebGLSampler 0)
   \<and> outcomes (Sampler_getSampler (Sampler_getSampler (run [ContextSettles True, Routine] (new_Sampler Pending \<lparr>calls = [], next_sampler = 0\<rparr> None)))) =
       [(GetSamplerTask, Returned (Some (WebGLSampler 0))),
        (GetSamplerTask, Returned (Some (WebGLSampler 0)))]
   \<and> self (Sampler_getSampler (run [ContextSettles True, Routine] (new_Sampler Pending \<lparr>calls = [], next_sampler = 0\<rparr> None))) = self (run [ContextSettles True, Routine] (new_Sampler Pending \<lparr>calls = [], next_sampler = 0\<rparr> None))
   \<and> gl (Sampler_getSampler (run [ContextSettles True, Routine] (new_Sampler Pending \<lparr>calls = [], next_sampler = 0\<rparr> None))) = gl (run [ContextSettles True, Routine] (new_Sampler Pending \<lparr>calls = [], next_sampler = 0\<rparr> None))"
proof -
  have p: "ready (self (new_Sampler Pending \<lparr>calls = [], next_sampler = 0\<rparr> None)) = Pending"
    by (simp add: new_Sampler_def Sampler_constructor_def Let_def)
  have n: "waiting (new_Sampler Pending \<lparr>calls = [], next_sampler = 0\<rparr> None) = [] \<and> outcomes (new_Sampler Pending \<lparr>calls = [], next_sampler = 0\<rparr> None) = []"
    by (simp add: new_Sampler_def)
  from C6_getSampler_returns_stored_handle [where w = "(new_Sampler Pending \<lparr>calls = [], next_sampler = 0\<rparr> None)"] p
  have "Sampler_getSampler (new_Sampler Pending \<lparr>calls = [], next_sampler = 0\<rparr> None) =
      (new_Sampler Pending \<lparr>calls = [], next_sampler = 0\<rparr> None)\<lparr>waiting := waiting (new_Sampler Pending \<lparr>calls = [], next_sampler = 0\<rparr> None) @ [GetSamplerTask]\<rparr>"
    by blast
  then have a: "waiting (Sampler_getSampler (new_Sampler Pending \<lparr>calls = [], next_sampler = 0\<rparr> None)) = [GetSamplerTask]
      \<and> outcomes (Sampler_getSampler (new_Sampler Pending \<lparr>calls = [], next_sampler = 0\<rparr> None)) = []"
    using n by simp
  have r: "ready (self (run [ContextSettles True, Routine] (new_Sampler Pending \<lparr>calls = [], next_sampler = 0\<rparr> None))) = Ready"
    by (simp add: new_Sampler_def Sampler_constructor_def ContextConsumer_routine_def settle_def split_beta Let_def Sampler_getSampler_def Sampler_delete_def await_ready_def getSampler_return_def delete_release_def)
  have s: "sampler (self (run [ContextSettles True, Routine] (new_Sampler Pending \<lparr>calls = [], next_sampler = 0\<rparr> None))) = Some (WebGLSampler 0)"
    by (simp add: new_Sampler_def Sampler_constructor_def ContextConsumer_routine_def settle_def split_beta Let_def Sampler_getSampler_def Sampler_delete_def await_ready_def getSampler_return_def delete_release_def initializer_def createSampler_def)
  have o: "outcomes (run [ContextSettles True, Routine] (new_Sampler Pending \<lparr>calls = [], next_sampler = 0\<rparr> None)) = []"
    by (simp add: new_Sampler_def Sampler_constructor_def ContextConsumer_routine_def settle_def split_beta Let_def Sampler_getSampler_def Sampler_delete_def await_ready_def getSampler_return_def delete_release_def)
  from C6_getSampler_returns_stored_handle [where w = "(run [ContextSettles True, Routine] (new_Sampler Pending \<lparr>calls = [], next_sampler = 0\<rparr> None))"] r
  have "outcomes (Sampler_getSampler (Sampler_getSampler (run [ContextSettles True, Routine] (new_Sampler Pending \<lparr>calls = [], next_sampler = 0\<rparr> None)))) =
        outcomes (run [ContextSettles True, Routine] (new_Sampler Pending \<lparr>calls = [], next_sampler = 0\<rparr> None)) @ [(GetSamplerTask, Returned (sampler (self (run [ContextSettles True, Routine] (new_Sampler Pending \<lparr>calls = [], next_sampler = 0\<rparr> None))))),
                      (GetSamplerTask, Returned (sampler (self (run [ContextSettles True, Routine] (new_Sampler Pending \<lparr>calls = [], next_sampler = 0\<rparr> None)))))]
     \<and> self (Sampler_getSampler (run [ContextSettles True, Routine] (new_Sampler Pending \<lparr>calls = [], next_sampler = 0\<rparr> None))) = self (run [ContextSettles True, Routine] (new_Sampler Pending \<lparr>calls = [], next_sampler = 0\<rparr> None))
     \<and> gl (Sampler_getSampler (run [ContextSettles True, Routine] (new_Sampler Pending \<lparr>calls = [], next_sampler = 0\<rparr> None))) = gl (run [ContextSettles True, Routine] (new_Sampler Pending \<lparr>calls = [], next_sampler = 0\<rparr> None))"
    by blast
  with s o have b: "outcomes (Sampler_getSampler (Sampler_getSampler (run [ContextSettles True, Routine] (new_Sampler Pending \<lparr>calls = [], next_sampler = 0\<rparr> None)))) =
       [(GetSamplerTask, Returned (Some (WebGLSampler 0))),
        (GetSamplerTask, Returned (Some (WebGLSampler 0)))]
     \<and> self (Sampler_getSampler (run [ContextSettles True, Routine] (new_Sampler Pending \<lparr>calls = [], next_sampler = 0\<rparr> None))) = self (run [ContextSettles True, Routine] (new_Sampler Pending \<lparr>calls = [], next_sampler = 0\<rparr> None))
     \<and> gl (Sampler_getSampler (run [ContextSettles True, Routine] (new_Sampler Pending \<lparr>calls = [], next_sampler = 0\<rparr> None))) = gl (run [ContextSettles True, Routine] (new_Sampler Pending \<lparr>calls = [], next_sampler = 0\<rparr> None))"
    by simp
  from p a r s b show ?thesis by blast
qed

text \<open>
  C7. \<^verbatim>\<open>delete\<close> awaits the signal first: on a pending signal the call is parked, on a
  failed one it is rejected, and only on a ready one is \<^verbatim>\<open>deleteSampler\<close> issued, on the
  stored handle. In every reachable world, wherever in the history \<^verbatim>\<open>delete\<close> was
  called, a delete call in the log means the signal is ready and names the handle
  created for this sampler; the first ten issued calls are the initializer's, none of
  them a delete; and there are as many delete calls as completed deletions.
\<close>

theorem C7_delete_awaits_ready:
  assumes w: "w = run es (new_Sampler c0 g0 arg)"
  shows "(ready (self w) = Pending \<longrightarrow>
            Sampler_delete w = w\<lparr>waiting := waiting w @ [DeleteTask]\<rparr>)
    \<and> (ready (self w) = Failed \<longrightarrow>
            Sampler_delete w = w\<lparr>outcomes := outcomes w @ [(DeleteTask, Rejected)]\<rparr>)
    \<and> (ready (self w) = Ready \<longrightarrow>
            Sampler_delete w =
              w\<lparr>gl := (gl w)\<lparr>calls := calls (gl w) @ [DeleteSampler (sampler (self w))]\<rparr>,
                outcomes := outcomes w @ [(DeleteTask, Completed)]\<rparr>)
    \<and> (\<forall>c \<in> set (issued g0 w). is_delete c \<longrightarrow>
            ready (self w) = Ready \<and> c = DeleteSampler (Some (first_handle g0)))
    \<and> (issued g0 w \<noteq> [] \<longrightarrow>
            take 10 (issued g0 w) =
              calls (snd (initializer (captured (self w)) (g0\<lparr>calls := []\<rparr>)))
            \<and> filter is_delete (take 10 (issued g0 w)) = []
            \<and> length (filter is_delete (issued g0 w)) = deletions (outcomes w))"
proof -
  have i: "inv c0 g0 (Sampler_constructor arg) w"
    unfolding w by (rule inv_reachable)
  have k: "captured (self w) = captured (Sampler_constructor arg)"
    using i by (simp add: inv_def)
  have a: "ready (self w) = Pending \<longrightarrow>
            Sampler_delete w = w\<lparr>waiting := waiting w @ [DeleteTask]\<rparr>"
    by (simp add: delete_cases)
  have b: "ready (self w) = Failed \<longrightarrow>
            Sampler_delete w = w\<lparr>outcomes := outcomes w @ [(DeleteTask, Rejected)]\<rparr>"
    by (simp add: delete_cases)
  have c: "ready (self w) = Ready \<longrightarrow>
            Sampler_delete w =
              w\<lparr>gl := (gl w)\<lparr>calls := calls (gl w) @ [DeleteSampler (sampler (self w))]\<rparr>,
                outcomes := outcomes w @ [(DeleteTask, Completed)]\<rparr>"
    by (simp add: delete_cases)
  have d: "\<forall>c \<in> set (issued g0 w). is_delete c \<longrightarrow>
            ready (self w) = Ready \<and> c = DeleteSampler (Some (first_handle g0))"
    by (auto simp: inv_issued [OF i] init_calls_def split: if_splits)
  have e: "issued g0 w \<noteq> [] \<longrightarrow>
            take 10 (issued g0 w) =
              calls (snd (initializer (captured (self w)) (g0\<lparr>calls := []\<rparr>)))
            \<and> filter is_delete (take 10 (issued g0 w)) = []
            \<and> length (filter is_delete (issued g0 w)) = deletions (outcomes w)"
    by (simp add: inv_issued [OF i] k initializer_eq first_handle_def init_calls_def)
  from a b c d e show ?thesis by blast
qed

theorem C7_delete_awaits_ready_witness:
  "ready (self (new_Sampler Pending \<lparr>calls = [], next_sampler = 0\<rparr> None)) = Pending
   \<and> waiting (Sampler_delete (new_Sampler Pending \<lparr>calls = [], next_sampler = 0\<rparr> None)) = [DeleteTask]
   \<and> gl (Sampler_delete (new_Sampler Pending \<lparr>calls = [], next_sampler = 0\<rparr> None)) = \<lparr>calls = [], next_sampler = 0\<rparr>
   \<and> issued \<lparr>calls = [], next_sampler = 0\<rparr> (run [Delete, ContextSettles True, Routine] (new_Sampler Pending \<lparr>calls = [], next_sampler = 0\<rparr> None)) = [CreateSampler (WebGLSampler 0),
        SamplerParameteri (WebGLSampler 0) TEXTURE_MIN_FILTER (MinFilter TextureMinFilter_linear),
        SamplerParameteri (WebGLSampler 0) TEXTURE_MAG_FILTER (MagFilter TextureMagFilter_linear),
        SamplerParameteri (WebGLSampler 0) TEXTURE_WRAP_S (Wrap TextureWrap_clampToEdge),
        SamplerParameteri (WebGLSampler 0) TEXTURE_WRAP_T (Wrap TextureWrap_clampToEdge),
        SamplerParameteri (WebGLSampler 0) TEXTURE_WRAP_R (Wrap TextureWrap_clampToEdge),
        SamplerParameterf (WebGLSampler 0) TEXTURE_MIN_LOD (- 1000),
        SamplerParameterf (WebGLSampler 0) TEXTURE_MAX_LOD 1000,
        SamplerParameteri (WebGLSampler 0) TEXTURE_COMPARE_MODE (CompareMode TextureCompareMode_none),
        SamplerParameteri (WebGLSampler 0) TEXTURE_COMPARE_FUNC
          (CompareFunc TextureCompareFunc_lessOrEqual),
        DeleteSampler (Some (WebGLSampler 0))]
   \<and> ready (self (run [Delete, ContextSettles True, Routine] (new_Sampler Pending \<lparr>calls = [], next_sampler = 0\<rparr> None))) = Ready
   \<and> filter is_delete (take 10 (issued \<lparr>calls = [], next_sampler = 0\<rparr> (run [Delete, ContextSettles True, Routine] (new_Sampler Pending \<lparr>calls = [], next_sampler = 0\<rparr> None)))) = []"
proof -
  have p: "ready (self (new_Sampler Pending \<lparr>calls = [], next_sampler = 0\<rparr> None)) = Pending"
    by (simp add: new_Sampler_def Sampler_constructor_def Let_def)
  have n: "waiting (new_Sampler Pending \<lparr>calls = [], next_sampler = 0\<rparr> None) = [] \<and> gl (new_Sampler Pending \<lparr>calls = [], next_sampler = 0\<rparr> None) = \<lparr>calls = [], next_sampler = 0\<rparr>"
    by (simp add: new_Sampler_def)
  from C7_delete_awaits_ready [where es = "[]" and ?c0.0 = Pending and ?g0.0 = "\<lparr>calls = [], next_sampler = 0\<rparr>" and arg = None, OF refl] p
  have "Sampler_delete (new_Sampler Pending \<lparr>calls = [], next_sampler = 0\<rparr> None) =
      (new_Sampler Pending \<lparr>calls = [], next_sampler = 0\<rparr> None)\<lparr>waiting := waiting (new_Sampler Pending \<lparr>calls = [], next_sampler = 0\<rparr> None) @ [DeleteTask]\<rparr>"
    by simp
  then have a: "waiting (Sampler_delete (new_Sampler Pending \<lparr>calls = [], next_sampler = 0\<rparr> None)) = [DeleteTask]
      \<and> gl (Sampler_delete (new_Sampler Pending \<lparr>calls = [], next_sampler = 0\<rparr> None)) = \<lparr>calls = [], next_sampler = 0\<rparr>"
    using n by simp
  have q: "issued \<lparr>calls = [], next_sampler = 0\<rparr> (run [Delete, ContextSettles True, Routine] (new_Sampler Pending \<lparr>calls = [], next_sampler = 0\<rparr> None)) = [CreateSampler (WebGLSampler 0),
        SamplerParameteri (WebGLSampler 0) TEXTURE_MIN_FILTER (MinFilter TextureMinFilter_linear),
        SamplerParameteri (WebGLSampler 0) TEXTURE_MAG_FILTER (MagFilter TextureMagFilter_linear),
        SamplerParameteri (WebGLSampler 0) TEXTURE_WRAP_S (Wrap TextureWrap_clampToEdge),
        SamplerParameteri (WebGLSampler 0) TEXTURE_WRAP_T (Wrap TextureWrap_clampToEdge),
        SamplerParameteri (WebGLSampler 0) TEXTURE_WRAP_R (Wrap TextureWrap_clampToEdge),
        SamplerParameterf (WebGLSampler 0) TEXTURE_MIN_LOD (- 1000),
        SamplerParameterf (WebGLSampler 0) TEXTURE_MAX_LOD 1000,
        SamplerParameteri (WebGLSampler 0) TEXTURE_COMPARE_MODE (CompareMode TextureCompareMode_none),
        SamplerParameteri (WebGLSampler 0) TEXTURE_COMPARE_FUNC
          (CompareFunc TextureCompareFunc_lessOrEqual),
        DeleteSampler (Some (WebGLSampler 0))]"
    by (simp add: new_Sampler_def Sampler_constructor_def ContextConsumer_routine_def settle_def split_beta Let_def Sampler_getSampler_def Sampler_delete_def await_ready_def getSampler_return_def delete_release_def issued_def initializer_def createSampler_def samplerParameteri_def samplerParameterf_def deleteSampler_def default_to_def empty_props_def destructure_def)
  then have ne: "issued \<lparr>calls = [], next_sampler = 0\<rparr> (run [Delete, ContextSettles True, Routine] (new_Sampler Pending \<lparr>calls = [], next_sampler = 0\<rparr> None)) \<noteq> []"
    and m: "DeleteSampler (Some (WebGLSampler 0)) \<in> set (issued \<lparr>calls = [], next_sampler = 0\<rparr> (run [Delete, ContextSettles True, Routine] (new_Sampler Pending \<lparr>calls = [], next_sampler = 0\<rparr> None)))"
    by simp_all
  from C7_delete_awaits_ready [where es = "[Delete, ContextSettles True, Routine]" and ?c0.0 = Pending and ?g0.0 = "\<lparr>calls = [], next_sampler = 0\<rparr>" and arg = None, OF refl] ne
  have b: "filter is_delete (take 10 (issued \<lparr>calls = [], next_sampler = 0\<rparr> (run [Delete, ContextSettles True, Routine] (new_Sampler Pending \<lparr>calls = [], next_sampler = 0\<rparr> None)))) = []"
    by blast
  from C7_delete_awaits_ready [where es = "[Delete, ContextSettles True, Routine]" and ?c0.0 = Pending and ?g0.0 = "\<lparr>calls = [], next_sampler = 0\<rparr>" and arg = None, OF refl] m
  have r: "ready (self (run [Delete, ContextSettles True, Routine] (new_Sampler Pending \<lparr>calls = [], next_sampler = 0\<rparr> None))) = Ready"
    by fastforce
  from p a q r b show ?thesis by blast
qed

text \<open>
  C9. \<^verbatim>\<open>delete\<close> changes no field of the object, neither when called nor when its
  parked continuation runs. On a ready sampler, a \<^verbatim>\<open>getSampler\<close> after a \<^verbatim>\<open>delete\<close> still
  returns the stored handle, a second \<^verbatim>\<open>delete\<close> issues \<^verbatim>\<open>deleteSampler\<close> on that same
  handle again, and the object stays as it was through a \<^verbatim>\<open>delete\<close> and any later
  events. In a reachable world that handle is the one created for this sampler.
\<close>

theorem C9_delete_changes_no_field:
  "self (Sampler_delete w) = self w
   \<and> self (delete_release w) = self w
   \<and> (ready (self w) = Ready \<longrightarrow>
        outcomes (Sampler_getSampler (Sampler_delete w)) =
          outcomes w @ [(DeleteTask, Completed), (GetSamplerTask, Returned (sampler (self w)))]
        \<and> calls (gl (Sampler_delete (Sampler_delete w))) =
          calls (gl w) @ [DeleteSampler (sampler (self w)), DeleteSampler (sampler (self w))]
        \<and> self (run (Delete # es') w) = self w)
   \<and> (w = run es (new_Sampler c0 g0 arg) \<and> ready (self w) = Ready \<longrightarrow>
        sampler (self w) = Some (first_handle g0))"
proof -
  have a: "self (Sampler_delete w) = self w"
    by (simp add: Sampler_delete_def)
  have b: "self (delete_release w) = self w"
    by (simp add: delete_release_def)
  have c: "ready (self w) = Ready \<longrightarrow>
        outcomes (Sampler_getSampler (Sampler_delete w)) =
          outcomes w @ [(DeleteTask, Completed), (GetSamplerTask, Returned (sampler (self w)))]
        \<and> calls (gl (Sampler_delete (Sampler_delete w))) =
          calls (gl w) @ [DeleteSampler (sampler (self w)), DeleteSampler (sampler (self w))]"
    by (simp add: delete_cases getSampler_cases)
  have d: "ready (self w) = Ready \<longrightarrow> self (run (Delete # es') w) = self w"
    by (simp add: run_settled a)
  have e: "w = run es (new_Sampler c0 g0 arg) \<and> ready (self w) = Ready \<longrightarrow>
        sampler (self w) = Some (first_handle g0)"
  proof
    assume h: "w = run es (new_Sampler c0 g0 arg) \<and> ready (self w) = Ready"
    then have r: "ready (self w) = Ready"
      by (rule conjunct2)
    from h have eq: "w = run es (new_Sampler c0 g0 arg)"
      by (rule conjunct1)
    have "inv c0 g0 (Sampler_constructor arg) w"
      unfolding eq by (rule inv_reachable)
    with r show "sampler (self w) = Some (first_handle g0)"
      unfolding inv_def by simp
  qed
  from a b c d e show ?thesis by blast
qed

theorem C9_delete_changes_no_field_witness:
  "ready (self (run [ContextSettles True, Routine] (new_Sampler Pending \<lparr>calls = [], next_sampler = 0\<rparr> None))) = Ready
   \<and> sampler (self (run [ContextSettles True, Routine] (new_Sampler Pending \<lparr>calls = [], next_sampler = 0\<rparr> None))) = Some (WebGLSampler 0)
   \<and> self (Sampler_delete (run [ContextSettles True, Routine] (new_Sampler Pending \<lparr>calls = [], next_sampler = 0\<rparr> None))) = self (run [ContextSettles True, Routine] (new_Sampler Pending \<lparr>calls = [], next_sampler = 0\<rparr> None))
   \<and> outcomes (Sampler_getSampler (Sampler_delete (run [ContextSettles True, Routine] (new_Sampler Pending \<lparr>calls = [], next_sampler = 0\<rparr> None)))) =
       [(DeleteTask, Completed), (GetSamplerTask, Returned (Some (WebGLSampler 0)))]
   \<and> filter is_delete (calls (gl (Sampler_delete (Sampler_delete (run [ContextSettles True, Routine] (new_Sampler Pending \<lparr>calls = [], next_sampler = 0\<rparr> None)))))) =
       [DeleteSampler (Some (WebGLSampler 0)), DeleteSampler (Some (WebGLSampler 0))]"
proof -
  have r: "ready (self (run [ContextSettles True, Routine] (new_Sampler Pending \<lparr>calls = [], next_sampler = 0\<rparr> None))) = Ready"
    by (simp add: new_Sampler_def Sampler_constructor_def ContextConsumer_routine_def settle_def split_beta Let_def Sampler_getSampler_def Sampler_delete_def await_ready_def getSampler_return_def delete_release_def)
  have s: "sampler (self (run [ContextSettles True, Routine] (new_Sampler Pending \<lparr>calls = [], next_sampler = 0\<rparr> None))) = Some (WebGLSampler 0)"
    by (simp add: new_Sampler_def Sampler_constructor_def ContextConsumer_routine_def settle_def split_beta Let_def Sampler_getSampler_def Sampler_delete_def await_ready_def getSampler_return_def delete_release_def initializer_def createSampler_def)
  have o: "outcomes (run [ContextSettles True, Routine] (new_Sampler Pending \<lparr>calls = [], next_sampler = 0\<rparr> None)) = []"
    by (simp add: new_Sampler_def Sampler_constructor_def ContextConsumer_routine_def settle_def split_beta Let_def Sampler_getSampler_def Sampler_delete_def await_ready_def getSampler_return_def delete_release_def)
  have g: "filter is_delete (calls (gl (run [ContextSettles True, Routine] (new_Sampler Pending \<lparr>calls = [], next_sampler = 0\<rparr> None)))) = []"
    by (simp add: new_Sampler_def Sampler_constructor_def ContextConsumer_routine_def settle_def split_beta Let_def Sampler_getSampler_def Sampler_delete_def await_ready_def getSampler_return_def delete_release_def issued_def initializer_def createSampler_def samplerParameteri_def samplerParameterf_def deleteSampler_def)
  from C9_delete_changes_no_field [where w = "(run [ContextSettles True, Routine] (new_Sampler Pending \<lparr>calls = [], next_sampler = 0\<rparr> None))"] r
  have t: "self (Sampler_delete (run [ContextSettles True, Routine] (new_Sampler Pending \<lparr>calls = [], next_sampler = 0\<rparr> None))) = self (run [ContextSettles True, Routine] (new_Sampler Pending \<lparr>calls = [], next_sampler = 0\<rparr> None))
     \<and> outcomes (Sampler_getSampler (Sampler_delete (run [ContextSettles True, Routine] (new_Sampler Pending \<lparr>calls = [], next_sampler = 0\<rparr> None)))) =
       outcomes (run [ContextSettles True, Routine] (new_Sampler Pending \<lparr>calls = [], next_sampler = 0\<rparr> None)) @ [(DeleteTask, Completed),
         (GetSamplerTask, Returned (sampler (self (run [ContextSettles True, Routine] (new_Sampler Pending \<lparr>calls = [], next_sampler = 0\<rparr> None)))))]
     \<and> calls (gl (Sampler_delete (Sampler_delete (run [ContextSettles True, Routine] (new_Sampler Pending \<lparr>calls = [], next_sampler = 0\<rparr> None))))) =
       calls (gl (run [ContextSettles True, Routine] (new_Sampler Pending \<lparr>calls = [], next_sampler = 0\<rparr> None))) @ [DeleteSampler (sampler (self (run [ContextSettles True, Routine] (new_Sampler Pending \<lparr>calls = [], next_sampler = 0\<rparr> None)))),
         DeleteSampler (sampler (self (run [ContextSettles True, Routine] (new_Sampler Pending \<lparr>calls = [], next_sampler = 0\<rparr> None))))]"
    by blast
  from t s o have b: "self (Sampler_delete (run [ContextSettles True, Routine] (new_Sampler Pending \<lparr>calls = [], next_sampler = 0\<rparr> None))) = self (run [ContextSettles True, Routine] (new_Sampler Pending \<lparr>calls = [], next_sampler = 0\<rparr> None))
     \<and> outcomes (Sampler_getSampler (Sampler_delete (run [ContextSettles True, Routine] (new_Sampler Pending \<lparr>calls = [], next_sampler = 0\<rparr> None)))) =
       [(DeleteTask, Completed), (GetSamplerTask, Returned (Some (WebGLSampler 0)))]"
    by simp
  from t have "filter is_delete (calls (gl (Sampler_delete (Sampler_delete (run [ContextSettles True, Routine] (new_Sampler Pending \<lparr>calls = [], next_sampler = 0\<rparr> None)))))) =
       filter is_delete (calls (gl (run [ContextSettles True, Routine] (new_Sampler Pending \<lparr>calls = [], next_sampler = 0\<rparr> None)))) @ [DeleteSampler (sampler (self (run [ContextSettles True, Routine] (new_Sampler Pending \<lparr>calls = [], next_sampler = 0\<rparr> None)))),
         DeleteSampler (sampler (self (run [ContextSettles True, Routine] (new_Sampler Pending \<lparr>calls = [], next_sampler = 0\<rparr> None))))]"
    by simp
  with g s have c: "filter is_delete (calls (gl (Sampler_delete (Sampler_delete (run [ContextSettles True, Routine] (new_Sampler Pending \<lparr>calls = [], next_sampler = 0\<rparr> None)))))) =
       [DeleteSampler (Some (WebGLSampler 0)), DeleteSampler (Some (WebGLSampler 0))]"
    by simp
  from r s b c show ?thesis by blast
qed

text \<open>
  C10. The constructor called with no argument behaves as if called with the empty
  object: each of the nine configuration fields takes its documented default and the
  context reference handed to the base class is absent.
\<close>

theorem C10_constructor_without_argument: 
  "Sampler_constructor None =
     \<lparr>ready = Pending, sampler = None,
      captured =
        \<lparr>v_minFilter = TextureMinFilter_linear, v_magFilter = TextureMagFilter_linear,
         v_wrapS = TextureWrap_clampToEdge, v_wrapT = TextureWrap_clampToEdge,
         v_wrapR = TextureWrap_clampToEdge, v_minLod = - 1000, v_maxLod = 1000,
         v_compareMode = TextureCompareMode_none,
         v_compareFunc = TextureCompareFunc_lessOrEqual\<rparr>,
      context_ref = None\<rparr>
   \<and> Sampler_constructor None = Sampler_constructor (Some empty_props)"
  by (simp add: Sampler_constructor_def default_to_def empty_props_def destructure_def)

end
